theory Spec2Isabelle
  imports Complex_Main "HOL-Library.Sublist"
begin

section \<open>JavaScript values used by the program\<close>

text \<open>
  Strings are lists of code units; the model's \<^typ>\<open>char\<close> covers the code units below 256.
  Numbers that are used as tab indices are integers or \<open>NaN\<close> (what \<open>parseInt\<close> yields on
  text without digits); times and CPU percentages are exact rationals, an idealisation of
  the doubles of the source.
\<close>

datatype jsnumber = NaN | Num int

definition isWhiteSpace :: "char \<Rightarrow> bool" where
  "isWhiteSpace c \<longleftrightarrow>
     c \<in> set [CHR 0x09, CHR 0x0A, CHR 0x0B, CHR 0x0C, CHR 0x0D, CHR 0x20, CHR 0xA0]"

text \<open>\<open>String.prototype.trim\<close>: white space and line terminators go from both ends.\<close>

definition trim :: "string \<Rightarrow> string" where
  "trim s = rev (dropWhile isWhiteSpace (rev (dropWhile isWhiteSpace s)))"

text \<open>
  \<open>s.split(sep)\<close> for a non-empty separator: the pieces between the occurrences of \<open>sep\<close>,
  found from the left without overlap. The accumulator holds the current piece reversed.
\<close>

function split_acc :: "string \<Rightarrow> string \<Rightarrow> string \<Rightarrow> string list" where
  "split_acc sep acc [] = [rev acc]"
| "split_acc sep acc (c # cs) =
     (if sep \<noteq> [] \<and> prefix sep (c # cs)
      then rev acc # split_acc sep [] (drop (length sep) (c # cs))
      else split_acc sep (c # acc) cs)"
  by pat_completeness auto
termination
  by (relation "measure (\<lambda>(sep, acc, s). length s)") (auto simp: neq_Nil_conv)

definition split :: "string \<Rightarrow> string \<Rightarrow> string list" where
  "split s sep = split_acc sep [] s"

text \<open>\<open>xs.join(sep)\<close>.\<close>

fun join :: "string list \<Rightarrow> string \<Rightarrow> string" where
  "join [] sep = []"
| "join [x] sep = x"
| "join (x # y # ys) sep = x @ sep @ join (y # ys) sep"

text \<open>
  \<open>xs.slice(start)\<close> for an integer \<open>start\<close>: a negative start counts from the end and
  is clamped at the beginning of the array.
\<close>

definition slice_from :: "'a list \<Rightarrow> int \<Rightarrow> 'a list" where
  "slice_from xs start =
     (let len = int (length xs);
          k = (if start < 0 then max (len + start) 0 else min start len)
      in drop (nat k) xs)"

text \<open>\<open>s.includes(sub)\<close>.\<close>

fun includes_str :: "string \<Rightarrow> string \<Rightarrow> bool" where
  "includes_str [] sub \<longleftrightarrow> sub = []"
| "includes_str (c # cs) sub \<longleftrightarrow> prefix sub (c # cs) \<or> includes_str cs sub"

text \<open>
  \<open>parseInt(s, 10)\<close>: leading white space is skipped, one sign is read, then the longest
  run of decimal digits; no digit gives \<open>NaN\<close>. Whatever follows the digits is ignored.
  The value is exact here; the source rounds integers beyond \<open>2^53\<close> to a double.
\<close>

definition isDigit :: "char \<Rightarrow> bool" where
  "isDigit c \<longleftrightarrow> c \<in> set ''0123456789''"

definition digitValue :: "char \<Rightarrow> nat" where
  "digitValue c = length (takeWhile (\<lambda>d. d \<noteq> c) ''0123456789'')"

definition digitsValue :: "string \<Rightarrow> nat" where
  "digitsValue ds = foldl (\<lambda>acc c. 10 * acc + digitValue c) 0 ds"

definition parseInt :: "string \<Rightarrow> jsnumber" where
  "parseInt s =
     (let t = dropWhile isWhiteSpace s;
          negative = (t \<noteq> [] \<and> hd t = CHR ''-'');
          u = (if t \<noteq> [] \<and> (hd t = CHR ''-'' \<or> hd t = CHR ''+'') then tl t else t);
          ds = takeWhile isDigit u
      in if ds = [] then NaN
         else Num (if negative then - int (digitsValue ds) else int (digitsValue ds)))"

text \<open>A number inside a template literal.\<close>

fun showNat :: "nat \<Rightarrow> string" where
  "showNat n =
     (if n < 10 then [''0123456789'' ! n]
      else showNat (n div 10) @ [''0123456789'' ! (n mod 10)])"

fun showNumber :: "jsnumber \<Rightarrow> string" where
  "showNumber NaN = ''NaN''"
| "showNumber (Num i) = (if i < 0 then CHR ''-'' # showNat (nat (- i)) else showNat (nat i))"

fun plusOne :: "jsnumber \<Rightarrow> jsnumber" where
  "plusOne NaN = NaN"
| "plusOne (Num i) = Num (i + 1)"

text \<open>\<open>s.toLowerCase()\<close> on the code units below 256.\<close>

definition lowerChar :: "char \<Rightarrow> char" where
  "lowerChar c =
     (let n = (of_char c :: nat)
      in if (65 \<le> n \<and> n \<le> 90) \<or> (192 \<le> n \<and> n \<le> 222 \<and> n \<noteq> 215)
         then char_of (n + 32) else c)"

definition toLowerCase :: "string \<Rightarrow> string" where
  "toLowerCase s = map lowerChar s"


section \<open>The outside world\<close>

text \<open>
  Everything the program asks of its surroundings goes through three collaborators: the
  scripting bridge to the terminal (\<open>osascript\<close>), the process inspector
  (\<open>ProcessTracker.getActiveProcess\<close>) and the file system (\<open>openSync\<close>, \<open>closeSync\<close>).
  The scripts are kept symbolic: a command names the request and its parameters, the
  AppleScript text and its escaping are not modelled.
\<close>

datatype command =
    GetContents string "jsnumber option"
  | WriteText string "jsnumber option" string
  | GetIsProcessing string "jsnumber option"
  | GetTty string "jsnumber option"
  | CreateWindow
  | CloseWindow string
  | ListTabs string
  | CloseTab string jsnumber

datatype event =
    Exec command
  | Inspect string
  | Open string
  | Close nat
  | Sleep nat

record process =
  totalCPUPercent :: rat

text \<open>
  The collaborators are deterministic functions of everything that happened so far (the
  trace, most recent event first, the request itself at its head). A call of the bridge
  or of the inspector takes some milliseconds and then rejects with a message (\<open>Inl\<close>) or
  resolves (\<open>Inr\<close>); \<open>openSync\<close> throws or returns a descriptor at once.
\<close>

record env =
  osascript :: "event list \<Rightarrow> nat \<times> (string + string)"
  getActiveProcess :: "event list \<Rightarrow> nat \<times> (string + process option)"
  openSync :: "event list \<Rightarrow> string + nat"

record world =
  now :: nat
  trace :: "event list"

definition execPromise :: "env \<Rightarrow> command \<Rightarrow> world \<Rightarrow> world \<times> (string + string)" where
  "execPromise env c w =
     (let tr = Exec c # trace w; (d, r) = osascript env tr
      in (\<lparr>now = now w + d, trace = tr\<rparr>, r))"

definition inspect :: "env \<Rightarrow> string \<Rightarrow> world \<Rightarrow> world \<times> (string + process option)" where
  "inspect env ttyPath w =
     (let tr = Inspect ttyPath # trace w; (d, r) = getActiveProcess env tr
      in (\<lparr>now = now w + d, trace = tr\<rparr>, r))"

definition openTty :: "env \<Rightarrow> string \<Rightarrow> world \<Rightarrow> world \<times> (string + nat)" where
  "openTty env ttyPath w =
     (let tr = Open ttyPath # trace w in (w\<lparr>trace := tr\<rparr>, openSync env tr))"

text \<open>Closing a descriptor that \<open>openSync\<close> has just returned is taken to succeed.\<close>

definition closeSync :: "nat \<Rightarrow> world \<Rightarrow> world" where
  "closeSync fd w = w\<lparr>trace := Close fd # trace w\<rparr>"

definition sleep :: "nat \<Rightarrow> world \<Rightarrow> world" where
  "sleep ms w = \<lparr>now = now w + ms, trace = Sleep ms # trace w\<rparr>"

section \<open>CommandExecutor\<close>

datatype error =
    Rejected string
  | InvalidWindow string
  | AppleScriptError string
  | TtyPathFailed string
  | ProcessingStatusFailed string
  | ProcessingTimedOut rat
  | CompletionTimedOut rat
  | ExecuteFailed error

datatype 'a completion = Returns 'a | Throws error

record result =
  newLines :: int
  executionTime :: int
  outputText :: "string option option"

text \<open>
  \<open>withTimeout\<close>: the promise races a timer set when the call starts. A promise that never
  settles is \<open>None\<close>. The promise wins when it settles before the timer is due; then the
  call continues in the world the promise left. When the timer wins the call rejects.
\<close>

definition withTimeout ::
  "(world \<times> (error + 'a)) option \<Rightarrow> world \<Rightarrow> rat \<Rightarrow> error \<Rightarrow> error + (world \<times> 'a)" where
  "withTimeout promise w0 timeoutMs errorMessage =
     (case promise of
        None \<Rightarrow> Inl errorMessage
      | Some (w1, r) \<Rightarrow>
          if of_nat (now w1 - now w0) < timeoutMs
          then (case r of Inl e \<Rightarrow> Inl e | Inr v \<Rightarrow> Inr (w1, v))
          else Inl errorMessage)"

text \<open>\<open>TtyOutputReader.retrieveBuffer\<close>.\<close>

definition retrieveBuffer ::
  "env \<Rightarrow> string \<Rightarrow> jsnumber option \<Rightarrow> world \<Rightarrow> world \<times> (error + string)" where
  "retrieveBuffer env windowId tabIndex w =
     (case execPromise env (GetContents windowId tabIndex) w of
        (w1, Inl m) \<Rightarrow> (w1, Inl (Rejected m))
      | (w1, Inr finalContent) \<Rightarrow> (w1, Inr (trim finalContent)))"

definition retrieveTtyPath ::
  "env \<Rightarrow> string \<Rightarrow> jsnumber option \<Rightarrow> world \<Rightarrow> world \<times> (error + string)" where
  "retrieveTtyPath env windowId tabIndex w =
     (case execPromise env (GetTty windowId tabIndex) w of
        (w1, Inr stdout) \<Rightarrow> (w1, Inr (trim stdout))
      | (w1, Inl errorMessage) \<Rightarrow>
          (w1, Inl (if includes_str errorMessage ''Invalid key form''
                       \<or> includes_str errorMessage ''doesn't understand''
                    then InvalidWindow windowId
                    else if includes_str errorMessage ''iTerm2 got an error''
                    then AppleScriptError errorMessage
                    else TtyPathFailed errorMessage)))"

definition isProcessing ::
  "env \<Rightarrow> string \<Rightarrow> jsnumber option \<Rightarrow> world \<Rightarrow> world \<times> (error + bool)" where
  "isProcessing env windowId tabIndex w =
     (case execPromise env (GetIsProcessing windowId tabIndex) w of
        (w1, Inr stdout) \<Rightarrow> (w1, Inr (trim stdout = ''true''))
      | (w1, Inl errorMessage) \<Rightarrow>
          (w1, Inl (if includes_str errorMessage ''Invalid key form''
                       \<or> includes_str errorMessage ''doesn't understand''
                    then InvalidWindow windowId
                    else if includes_str errorMessage ''iTerm2 got an error''
                    then AppleScriptError errorMessage
                    else ProcessingStatusFailed errorMessage)))"

text \<open>The loop of \<open>waitForProcessingComplete\<close>; it may run forever.\<close>

partial_function (option) waitForProcessingComplete ::
  "env \<Rightarrow> string \<Rightarrow> jsnumber option \<Rightarrow> world \<Rightarrow> (world \<times> (error + unit)) option" where
  "waitForProcessingComplete env windowId tabIndex w =
     (case isProcessing env windowId tabIndex w of
        (w1, Inl e) \<Rightarrow> Some (w1, Inl e)
      | (w1, Inr processing) \<Rightarrow>
          if processing then waitForProcessingComplete env windowId tabIndex (sleep 100 w1)
          else Some (w1, Inr ()))"

text \<open>
  The \<open>while (true)\<close> loop inside \<open>isWaitingForUserInput\<close>, with its inner \<open>try\<close>/\<open>catch\<close>.
  The loop is left only by a \<open>return\<close>.
\<close>

partial_function (option) pollLoop ::
  "env \<Rightarrow> string \<Rightarrow> nat \<Rightarrow> world \<Rightarrow> (world \<times> bool completion) option" where
  "pollLoop env ttyPath belowThresholdTime w =
     (case inspect env ttyPath w of
        (w1, Inl m) \<Rightarrow> Some (w1, Returns True)
      | (w1, Inr None) \<Rightarrow> Some (w1, Returns True)
      | (w1, Inr (Some activeProcess)) \<Rightarrow>
          if totalCPUPercent activeProcess < 1
          then (if belowThresholdTime + 350 \<ge> 1000 then Some (w1, Returns True)
                else pollLoop env ttyPath (belowThresholdTime + 350) (sleep 350 w1))
          else pollLoop env ttyPath 0 (sleep 350 w1))"

text \<open>The handler \<open>catch (error) { return true; }\<close> of the outer \<open>try\<close>.\<close>

fun outerCatch :: "bool completion \<Rightarrow> bool completion" where
  "outerCatch (Throws e) = Returns True"
| "outerCatch (Returns b) = Returns b"

text \<open>
  The block \<open>finally { if (fd !== undefined) closeSync(fd); return true; }\<close>: its \<open>return\<close>
  replaces whatever completion the \<open>try\<close> and \<open>catch\<close> blocks produced.
\<close>

definition finallyBlock :: "nat option \<Rightarrow> world \<times> bool completion \<Rightarrow> world \<times> bool completion" where
  "finallyBlock fd wc =
     (case wc of (w, c) \<Rightarrow>
        ((case fd of None \<Rightarrow> w | Some d \<Rightarrow> closeSync d w), Returns True))"

fun settle :: "world \<times> 'a completion \<Rightarrow> world \<times> (error + 'a)" where
  "settle (w, Returns v) = (w, Inr v)"
| "settle (w, Throws e) = (w, Inl e)"

definition isWaitingForUserInput ::
  "env \<Rightarrow> string \<Rightarrow> world \<Rightarrow> (world \<times> (error + bool)) option" where
  "isWaitingForUserInput env ttyPath w =
     (case openTty env ttyPath w of
        (w1, Inl m) \<Rightarrow> Some (settle (finallyBlock None (w1, outerCatch (Throws (Rejected m)))))
      | (w1, Inr fd) \<Rightarrow>
          (case pollLoop env ttyPath 0 w1 of
             None \<Rightarrow> None
           | Some (w2, c) \<Rightarrow> Some (settle (finallyBlock (Some fd) (w2, outerCatch c)))))"

partial_function (option) waitForUserInputReady ::
  "env \<Rightarrow> string \<Rightarrow> string \<Rightarrow> world \<Rightarrow> (world \<times> (error + unit)) option" where
  "waitForUserInputReady env windowId ttyPath w =
     (case isWaitingForUserInput env ttyPath w of
        None \<Rightarrow> None
      | Some (w1, Inl e) \<Rightarrow> Some (w1, Inl e)
      | Some (w1, Inr waiting) \<Rightarrow>
          if waiting = False then waitForUserInputReady env windowId ttyPath (sleep 100 w1)
          else Some (w1, Inr ()))"

text \<open>
  The two budgets computed between the phases (\<open>timeoutMs\<close> and \<open>elapsedTime\<close> in ms). The
  products are exact here; the source rounds each of them to a double, so only bounds that
  rounding cannot cross are stated of them.
\<close>

definition remainingTime :: "rat \<Rightarrow> rat \<Rightarrow> rat" where
  "remainingTime timeoutMs elapsedTime = max (timeoutMs - elapsedTime) 1000"

definition inputTimeout :: "rat \<Rightarrow> rat \<Rightarrow> rat" where
  "inputTimeout timeoutMs elapsedTime =
     min (remainingTime timeoutMs elapsedTime * 0.93) (timeoutMs * 0.7)"

text \<open>
  The body of the \<open>try\<close> block that captures the output lines; the number of lines asked
  for is an integer.
\<close>

definition captureLines :: "string \<Rightarrow> int \<Rightarrow> error + string" where
  "captureLines afterCommandBuffer returnOutputLines =
     (let lines = split afterCommandBuffer ''\<newline>''
      in Inr (join (slice_from lines (- returnOutputLines - 1)) ''\<newline>''))"

text \<open>
  \<open>executeCommand\<close>. The capture step is a parameter here, so that its handler can be
  exercised with a step that throws; \<open>executeCommand\<close> itself runs \<open>captureLines\<close>.
  The outer handler wraps every error of the body.
\<close>

definition executeCommandWith ::
  "(string \<Rightarrow> int \<Rightarrow> error + string) \<Rightarrow> env \<Rightarrow> string \<Rightarrow> string \<Rightarrow> rat \<Rightarrow> int \<Rightarrow>
   jsnumber option \<Rightarrow> world \<Rightarrow> error + (world \<times> result)" where
  "executeCommandWith capture env windowId command timeoutSeconds returnOutputLines tabIndex w =
     (let startTime = now w;
          timeoutMs = timeoutSeconds * 1000;
          body =
            (case retrieveBuffer env windowId tabIndex w of
               (w1, Inl e) \<Rightarrow> Inl e
             | (w1, Inr beforeCommandBuffer) \<Rightarrow>
            let beforeCommandBufferLines = length (split beforeCommandBuffer ''\<newline>'') in
            (case execPromise env (WriteText windowId tabIndex command) w1 of
               (w2, Inl m) \<Rightarrow> Inl (Rejected m)
             | (w2, Inr written) \<Rightarrow>
            let processingTimeout = timeoutMs * 0.25 in
            (case withTimeout (waitForProcessingComplete env windowId tabIndex w2) w2
                    processingTimeout (ProcessingTimedOut (processingTimeout / 1000)) of
               Inl e \<Rightarrow> Inl e
             | Inr (w3, done) \<Rightarrow>
            let elapsedTime = int (now w3) - int startTime;
                budget = inputTimeout timeoutMs (of_int elapsedTime) in
            (case retrieveTtyPath env windowId tabIndex w3 of
               (w4, Inl e) \<Rightarrow> Inl e
             | (w4, Inr ttyPath) \<Rightarrow>
            (case withTimeout (waitForUserInputReady env windowId ttyPath w4) w4
                    budget (CompletionTimedOut timeoutSeconds) of
               Inl e \<Rightarrow> Inl e
             | Inr (w5, ready) \<Rightarrow>
            let w6 = sleep 200 w5 in
            (case retrieveBuffer env windowId tabIndex w6 of
               (w7, Inl e) \<Rightarrow> Inl e
             | (w7, Inr afterCommandBuffer) \<Rightarrow>
            let afterCommandBufferLines = length (split afterCommandBuffer ''\<newline>'');
                elapsed = int (now w7) - int startTime;
                out = (if returnOutputLines > 0
                       then (case capture afterCommandBuffer returnOutputLines of
                               Inr s \<Rightarrow> Some (Some s)
                             | Inl e \<Rightarrow> Some None)
                       else None)
            in Inr (w7, \<lparr>newLines = int afterCommandBufferLines - int beforeCommandBufferLines,
                         executionTime = elapsed,
                         outputText = out\<rparr>)))))))
      in case body of Inl e \<Rightarrow> Inl (ExecuteFailed e) | Inr r \<Rightarrow> Inr r)"

definition executeCommand ::
  "env \<Rightarrow> string \<Rightarrow> string \<Rightarrow> rat \<Rightarrow> int \<Rightarrow> jsnumber option \<Rightarrow> world \<Rightarrow>
   error + (world \<times> result)" where
  "executeCommand = executeCommandWith captureLines"

text \<open>The clamp that the request handler applies to the caller's \<open>timeout\<close> argument:
  \<open>Math.min(Math.max(Number(timeout) || 30, 1), 120)\<close>; \<open>None\<close> is an absent or non-numeric
  argument.\<close>

definition clampTimeout :: "rat option \<Rightarrow> rat" where
  "clampTimeout arg =
     min (max (case arg of None \<Rightarrow> 30 | Some x \<Rightarrow> if x = 0 then 30 else x) 1) 120"


section \<open>TabManager\<close>

record TabInfo =
  tab_index :: jsnumber
  tab_name :: string
  tab_sessionId :: "string option"
  tab_tty :: "string option"
  tab_alias :: "string option"

text \<open>
  A JavaScript \<open>Map\<close> keeps its entries in insertion order: \<open>set\<close> on a present key
  replaces the value in place, on an absent key it appends. The inner alias maps are
  iterated by the program, so they are association lists; the outer map is only looked
  up by key.
\<close>

fun mapSet :: "'k \<Rightarrow> 'v \<Rightarrow> ('k \<times> 'v) list \<Rightarrow> ('k \<times> 'v) list" where
  "mapSet k v [] = [(k, v)]"
| "mapSet k v ((k', v') # kvs) =
     (if k' = k then (k, v) # kvs else (k', v') # mapSet k v kvs)"

definition mapDelete :: "'k \<Rightarrow> ('k \<times> 'v) list \<Rightarrow> ('k \<times> 'v) list" where
  "mapDelete k kvs = filter (\<lambda>kv. fst kv \<noteq> k) kvs"

type_synonym aliases = "string \<Rightarrow> (jsnumber \<times> string) list option"

definition setTabAlias :: "aliases \<Rightarrow> string \<Rightarrow> jsnumber \<Rightarrow> string \<Rightarrow> aliases" where
  "setTabAlias tabAliases windowId tabIndex alias =
     (let created = (if tabAliases windowId = None then tabAliases(windowId \<mapsto> [])
                     else tabAliases)
      in case created windowId of
           None \<Rightarrow> created
         | Some windowAliases \<Rightarrow> created(windowId \<mapsto> mapSet tabIndex alias windowAliases))"

definition getTabAlias :: "aliases \<Rightarrow> string \<Rightarrow> jsnumber \<Rightarrow> string option" where
  "getTabAlias tabAliases windowId tabIndex =
     (case tabAliases windowId of
        None \<Rightarrow> None
      | Some windowAliases \<Rightarrow> map_of windowAliases tabIndex)"

definition removeTabAlias :: "aliases \<Rightarrow> string \<Rightarrow> jsnumber \<Rightarrow> aliases" where
  "removeTabAlias tabAliases windowId tabIndex =
     (case tabAliases windowId of
        None \<Rightarrow> tabAliases
      | Some windowAliases \<Rightarrow> tabAliases(windowId \<mapsto> mapDelete tabIndex windowAliases))"

text \<open>The loop of \<open>getTabIndexByAlias\<close> over the entries of a window's map.\<close>

fun firstWithAlias :: "string \<Rightarrow> (jsnumber \<times> string) list \<Rightarrow> jsnumber option" where
  "firstWithAlias alias [] = None"
| "firstWithAlias alias ((tabIndex, tabAlias) # entries) =
     (if tabAlias = alias then Some tabIndex else firstWithAlias alias entries)"

definition getTabIndexByAlias :: "aliases \<Rightarrow> string \<Rightarrow> string \<Rightarrow> jsnumber option" where
  "getTabIndexByAlias tabAliases windowId alias =
     (case tabAliases windowId of
        None \<Rightarrow> None
      | Some windowAliases \<Rightarrow> firstWithAlias alias windowAliases)"

definition clearWindowAliases :: "aliases \<Rightarrow> string \<Rightarrow> aliases" where
  "clearWindowAliases tabAliases windowId = tabAliases(windowId := None)"

text \<open>One record of the listing, \<open>index|name|sessionId|tty\<close>; a missing field is \<open>undefined\<close>.\<close>

definition field :: "string list \<Rightarrow> nat \<Rightarrow> string option" where
  "field parts n = (if n < length parts then Some (parts ! n) else None)"

definition parseTab :: "aliases \<Rightarrow> string \<Rightarrow> string \<Rightarrow> TabInfo" where
  "parseTab tabAliases windowId tabString =
     (let parts = split tabString ''|'';
          tabIndex = (case field parts 0 of None \<Rightarrow> NaN | Some indexStr \<Rightarrow> parseInt indexStr)
      in \<lparr>tab_index = tabIndex,
          tab_name = (case field parts 1 of
                        None \<Rightarrow> ''Tab '' @ showNumber (plusOne tabIndex)
                      | Some n \<Rightarrow> if n = [] then ''Tab '' @ showNumber (plusOne tabIndex) else n),
          tab_sessionId = field parts 2,
          tab_tty = field parts 3,
          tab_alias = getTabAlias tabAliases windowId tabIndex\<rparr>)"

definition listTabs ::
  "env \<Rightarrow> aliases \<Rightarrow> string \<Rightarrow> world \<Rightarrow> world \<times> (string + TabInfo list)" where
  "listTabs env tabAliases windowId w =
     (case execPromise env (ListTabs windowId) w of
        (w1, Inl m) \<Rightarrow> (w1, Inl (''Failed to list tabs: '' @ m))
      | (w1, Inr stdout) \<Rightarrow>
          (let tabData = trim stdout
           in if tabData = [] then (w1, Inr [])
              else (w1, Inr (map (parseTab tabAliases windowId) (split tabData '', '')))))"

definition getTabIndex ::
  "env \<Rightarrow> aliases \<Rightarrow> string \<Rightarrow> string \<Rightarrow> world \<Rightarrow> world \<times> (string + jsnumber option)" where
  "getTabIndex env tabAliases windowId tabName w =
     (case listTabs env tabAliases windowId w of
        (w1, Inl e) \<Rightarrow> (w1, Inl e)
      | (w1, Inr tabs) \<Rightarrow>
          (w1, Inr (case find (\<lambda>t. tab_name t = tabName) tabs of
                      None \<Rightarrow> None
                    | Some tab \<Rightarrow> Some (tab_index tab))))"

definition closeTab :: "env \<Rightarrow> string \<Rightarrow> jsnumber \<Rightarrow> world \<Rightarrow> world \<times> (string + unit)" where
  "closeTab env windowId tabIndex w =
     (case execPromise env (CloseTab windowId tabIndex) w of
        (w1, Inl m) \<Rightarrow> (w1, Inl (''Failed to close tab '' @ showNumber tabIndex @ '': '' @ m))
      | (w1, Inr stdout) \<Rightarrow> (w1, Inr ()))"

datatype tab_identifier = IdString string | IdNumber jsnumber

definition resolveTabIndex ::
  "env \<Rightarrow> aliases \<Rightarrow> string \<Rightarrow> tab_identifier \<Rightarrow> world \<Rightarrow> world \<times> (string + jsnumber)" where
  "resolveTabIndex env tabAliases windowId tabIdentifier w =
     (case tabIdentifier of
        IdNumber n \<Rightarrow> (w, Inr n)
      | IdString s \<Rightarrow>
          (case parseInt s of
             Num numericIndex \<Rightarrow> (w, Inr (Num numericIndex))
           | NaN \<Rightarrow>
               (case getTabIndexByAlias tabAliases windowId s of
                  Some aliasBased \<Rightarrow> (w, Inr aliasBased)
                | None \<Rightarrow>
                    (case getTabIndex env tabAliases windowId s w of
                       (w1, Inl e) \<Rightarrow> (w1, Inl e)
                     | (w1, Inr None) \<Rightarrow> (w1, Inl (''Tab not found: '' @ s))
                     | (w1, Inr (Some tabIndex)) \<Rightarrow> (w1, Inr tabIndex)))))"

text \<open>The operations that change the alias table, and their effect in sequence.\<close>

datatype alias_op =
    SetTabAlias string jsnumber string
  | RemoveTabAlias string jsnumber
  | ClearWindowAliases string

fun applyAliasOp :: "aliases \<Rightarrow> alias_op \<Rightarrow> aliases" where
  "applyAliasOp t (SetTabAlias windowId tabIndex alias) = setTabAlias t windowId tabIndex alias"
| "applyAliasOp t (RemoveTabAlias windowId tabIndex) = removeTabAlias t windowId tabIndex"
| "applyAliasOp t (ClearWindowAliases windowId) = clearWindowAliases t windowId"

definition noAliases :: aliases where
  "noAliases = (\<lambda>windowId. None)"

definition runAliasOps :: "alias_op list \<Rightarrow> aliases" where
  "runAliasOps ops = foldl applyAliasOp noAliases ops"

text \<open>The tab indices that hold a given alias in a window.\<close>

definition holders :: "aliases \<Rightarrow> string \<Rightarrow> string \<Rightarrow> jsnumber list" where
  "holders tabAliases windowId alias =
     (case tabAliases windowId of
        None \<Rightarrow> []
      | Some windowAliases \<Rightarrow> map fst (filter (\<lambda>kv. snd kv = alias) windowAliases))"

section \<open>SessionManager\<close>

record SessionTabInfo =
  info_windowId :: string
  info_tabIndex :: jsnumber
  info_tabName :: "string option"

record manager =
  sessionWindowMap :: "string \<Rightarrow> string option"
  sessionPathMap :: "string \<Rightarrow> string option"
  sessionTabMap :: "string \<Rightarrow> SessionTabInfo option"
  tabAliases :: aliases

record outcome =
  success :: bool
  message :: string

definition newManager :: manager where
  "newManager = \<lparr>sessionWindowMap = (\<lambda>c. None), sessionPathMap = (\<lambda>c. None),
                  sessionTabMap = (\<lambda>c. None), tabAliases = noAliases\<rparr>"

text \<open>
  \<open>createSession\<close>, the only place that stores into \<open>sessionWindowMap\<close>. The path
  normalisation \<open>resolve\<close> of \<open>node:path\<close> is a parameter.
\<close>

definition createSession ::
  "(string \<Rightarrow> string) \<Rightarrow> env \<Rightarrow> manager \<Rightarrow> string \<Rightarrow> string option \<Rightarrow> world \<Rightarrow>
   world \<times> manager \<times> (string + string)" where
  "createSession resolve env m clientId workingDir w =
     (case execPromise env CreateWindow w of
        (w1, Inl e) \<Rightarrow> (w1, m, Inl (''Failed to create iTerm2 window: '' @ e))
      | (w1, Inr stdout) \<Rightarrow>
          (let windowId = trim stdout
           in if windowId = []
              then (w1, m, Inl (''Failed to create iTerm2 window: ''
                                  @ ''Failed to get new window ID from iTerm2.''))
              else
                (let m1 = m\<lparr>sessionWindowMap := (sessionWindowMap m)(clientId \<mapsto> windowId)\<rparr>;
                     m2 = (case workingDir of
                             None \<Rightarrow> m1
                           | Some d \<Rightarrow>
                               if d = [] then m1
                               else m1\<lparr>sessionPathMap :=
                                         (sessionPathMap m1)(clientId \<mapsto> resolve d)\<rparr>)
                 in (w1, m2, Inr windowId))))"

text \<open>\<open>getWindowId\<close> followed by the test \<open>!windowId\<close>: an empty string is falsy too.\<close>

definition getWindowId :: "manager \<Rightarrow> string \<Rightarrow> string option" where
  "getWindowId m clientId = sessionWindowMap m clientId"

definition falsy :: "string option \<Rightarrow> bool" where
  "falsy v \<longleftrightarrow> (case v of None \<Rightarrow> True | Some s \<Rightarrow> s = [])"

definition endSession ::
  "env \<Rightarrow> manager \<Rightarrow> string \<Rightarrow> world \<Rightarrow> world \<times> manager \<times> (string + unit)" where
  "endSession env m clientId w =
     (case sessionWindowMap m clientId of
        None \<Rightarrow> (w, m, Inr ())
      | Some windowId \<Rightarrow>
          if windowId = [] then (w, m, Inr ())
          else
            (case execPromise env (CloseWindow windowId) w of
               (w1, Inr stdout) \<Rightarrow>
                 (w1,
                  m\<lparr>sessionWindowMap := (sessionWindowMap m)(clientId := None),
                    sessionPathMap := (sessionPathMap m)(clientId := None),
                    sessionTabMap := (sessionTabMap m)(clientId := None)\<rparr>,
                  Inr ())
             | (w1, Inl e) \<Rightarrow>
                 (w1,
                  m\<lparr>sessionWindowMap := (sessionWindowMap m)(clientId := None),
                    sessionPathMap := (sessionPathMap m)(clientId := None),
                    sessionTabMap := (sessionTabMap m)(clientId := None)\<rparr>,
                  Inr ())))"

text \<open>\<open>===\<close> on numbers: \<open>NaN\<close> is not equal to itself.\<close>

definition strictEq :: "jsnumber \<Rightarrow> jsnumber \<Rightarrow> bool" where
  "strictEq a b \<longleftrightarrow> a \<noteq> NaN \<and> a = b"

definition closeSessionTab ::
  "env \<Rightarrow> manager \<Rightarrow> string \<Rightarrow> tab_identifier \<Rightarrow> world \<Rightarrow> world \<times> manager \<times> (string + unit)" where
  "closeSessionTab env m clientId tabIdentifier w =
     (case getWindowId m clientId of
        None \<Rightarrow> (w, m, Inl (''No session found for client '' @ clientId))
      | Some windowId \<Rightarrow>
          if windowId = [] then (w, m, Inl (''No session found for client '' @ clientId))
          else
            (case resolveTabIndex env (tabAliases m) windowId tabIdentifier w of
               (w1, Inl e) \<Rightarrow> (w1, m, Inl e)
             | (w1, Inr tabIndex) \<Rightarrow>
            (case closeTab env windowId tabIndex w1 of
               (w2, Inl e) \<Rightarrow> (w2, m, Inl e)
             | (w2, Inr tabClosed) \<Rightarrow>
            (case sessionTabMap m clientId of
               None \<Rightarrow> (w2, m, Inr ())
             | Some currentTabInfo \<Rightarrow>
                 if strictEq (info_tabIndex currentTabInfo) tabIndex
                 then
                   (case listTabs env (tabAliases m) windowId w2 of
                      (w3, Inr tabs) \<Rightarrow>
                        if length tabs > 0
                        then (w3,
                              m\<lparr>sessionTabMap := (sessionTabMap m)(clientId \<mapsto>
                                   \<lparr>info_windowId = windowId, info_tabIndex = Num 0,
                                    info_tabName = None\<rparr>)\<rparr>,
                              Inr ())
                        else (w3, m\<lparr>sessionTabMap := (sessionTabMap m)(clientId := None)\<rparr>,
                              Inr ())
                    | (w3, Inl e) \<Rightarrow>
                        (w3, m\<lparr>sessionTabMap := (sessionTabMap m)(clientId := None)\<rparr>,
                         Inr ()))
                 else (w2, m, Inr ())))))"

text \<open>The argument \<open>tabs: string | string[]\<close> of \<open>closeTabs\<close>.\<close>

datatype tabs_arg = Bare string | Array "string list"

text \<open>The loop of \<open>closeTabs\<close> over the tab list, collecting closed and failed tabs.\<close>

fun closeEach ::
  "env \<Rightarrow> string \<Rightarrow> string list \<Rightarrow> world \<Rightarrow> manager \<Rightarrow> string list \<Rightarrow> string list \<Rightarrow>
   world \<times> manager \<times> string list \<times> string list" where
  "closeEach env clientId [] w m closedTabs failedTabs = (w, m, closedTabs, failedTabs)"
| "closeEach env clientId (tabIdentifier # rest) w m closedTabs failedTabs =
     (case closeSessionTab env m clientId (IdString tabIdentifier) w of
        (w1, m1, Inr tabClosed) \<Rightarrow>
          closeEach env clientId rest w1 m1 (closedTabs @ [tabIdentifier]) failedTabs
      | (w1, m1, Inl e) \<Rightarrow>
          closeEach env clientId rest w1 m1 closedTabs
            (failedTabs @ [tabIdentifier @ '': '' @ e]))"

definition closeTabs ::
  "env \<Rightarrow> manager \<Rightarrow> string \<Rightarrow> tabs_arg \<Rightarrow> world \<Rightarrow> world \<times> manager \<times> outcome" where
  "closeTabs env m clientId tabs w =
     (if falsy (getWindowId m clientId)
      then (w, m, \<lparr>success = False, message = ''No session found for client '' @ clientId\<rparr>)
      else if (case tabs of Bare t \<Rightarrow> toLowerCase t = ''all'' | Array ts \<Rightarrow> False)
      then
        (case endSession env m clientId w of
           (w1, m1, Inr ended) \<Rightarrow>
             (w1, m1, \<lparr>success = True,
                       message = ''Successfully closed entire window for client '' @ clientId\<rparr>)
         | (w1, m1, Inl e) \<Rightarrow>
             (w1, m1, \<lparr>success = False, message = ''Failed to close window: '' @ e\<rparr>))
      else
        (let tabList = (case tabs of Array ts \<Rightarrow> ts | Bare t \<Rightarrow> [t])
         in case closeEach env clientId tabList w m [] [] of
              (w1, m1, closedTabs, failedTabs) \<Rightarrow>
                (let successMessage =
                       (if length closedTabs > 0
                        then ''Closed tabs: '' @ join closedTabs '', '' else []);
                     failureMessage =
                       (if length failedTabs > 0
                        then ''Failed to close: '' @ join failedTabs ''; '' else []);
                     combined =
                       join (filter (\<lambda>part. part \<noteq> []) [successMessage, failureMessage])
                         ''. ''
                 in (w1, m1, \<lparr>success = length closedTabs > 0,
                              message = (if combined = [] then ''No tabs were processed''
                                         else combined)\<rparr>))))"

section \<open>Observations and concrete environments\<close>

text \<open>
  The buffer that \<open>retrieveBuffer\<close> reads when the request at the head of the trace is a
  read of the session's contents, and the line count that \<open>executeCommand\<close> takes of it.
\<close>

definition bufferRead :: "env \<Rightarrow> event list \<Rightarrow> string" where
  "bufferRead env tr =
     (case snd (osascript env tr) of Inr finalContent \<Rightarrow> trim finalContent | Inl m \<Rightarrow> [])"

definition lineCount :: "string \<Rightarrow> nat" where
  "lineCount buffer = length (split buffer ''\<newline>'')"

text \<open>
  A terminal as the unit tests mock it: the first read of the contents gives \<open>before\<close>,
  every later one \<open>after\<close>; the session is not processing; every call returns at once.
  The inspector always gives \<open>probe\<close>.
\<close>

definition terminalEnv :: "string \<Rightarrow> string \<Rightarrow> (string + process option) \<Rightarrow> env" where
  "terminalEnv before after probe =
     \<lparr>osascript = (\<lambda>tr. (0, Inr (case tr of
          Exec (GetContents wid tab) # rest \<Rightarrow> if rest = [] then before else after
        | Exec (GetTty wid tab) # rest \<Rightarrow> ''/dev/ttys000\<newline>''
        | Exec (GetIsProcessing wid tab) # rest \<Rightarrow> ''false\<newline>''
        | _ \<Rightarrow> []))),
      getActiveProcess = (\<lambda>tr. (0, probe)),
      openSync = (\<lambda>tr. Inr 1)\<rparr>"

definition start :: world where
  "start = \<lparr>now = 0, trace = []\<rparr>"

text \<open>
  A bridge that answers at once with \<open>reply\<close>, next to an idle inspector; and two replies:
  a window with three tabs named \<open>x\<close>, \<open>y\<close> and \<open>z\<close>, and a window that was closed by
  hand, so that closing it is rejected.
\<close>

definition bridgeEnv :: "(event list \<Rightarrow> string + string) \<Rightarrow> env" where
  "bridgeEnv reply =
     \<lparr>osascript = (\<lambda>tr. (0, reply tr)),
      getActiveProcess = (\<lambda>tr. (0, Inr None)),
      openSync = (\<lambda>tr. Inr 1)\<rparr>"

definition threeTabs :: "event list \<Rightarrow> string + string" where
  "threeTabs tr =
     (case tr of
        Exec (ListTabs wid) # rest \<Rightarrow>
          Inr ''0|x|s0|/dev/ttys000, 1|y|s1|/dev/ttys001, 2|z|s2|/dev/ttys002\<newline>''
      | _ \<Rightarrow> Inr [])"

definition windowGone :: "event list \<Rightarrow> string + string" where
  "windowGone tr =
     (case tr of
        Exec (CloseWindow wid) # rest \<Rightarrow> Inl ''Window already closed''
      | _ \<Rightarrow> Inr [])"

text \<open>The entries of a window's alias map, and the window an operation works on.\<close>

definition entries :: "aliases \<Rightarrow> string \<Rightarrow> (jsnumber \<times> string) list" where
  "entries t windowId = (case t windowId of None \<Rightarrow> [] | Some windowAliases \<Rightarrow> windowAliases)"

fun opWindow :: "alias_op \<Rightarrow> string" where
  "opWindow (SetTabAlias windowId tabIndex alias) = windowId"
| "opWindow (RemoveTabAlias windowId tabIndex) = windowId"
| "opWindow (ClearWindowAliases windowId) = windowId"

text \<open>
  Between two worlds the trace has only grown, and by no request to close a window.
\<close>

fun closesWindow :: "event \<Rightarrow> bool" where
  "closesWindow (Exec (CloseWindow windowId)) = True"
| "closesWindow e = False"

definition keepsWindows :: "world \<Rightarrow> world \<Rightarrow> bool" where
  "keepsWindows w w' \<longleftrightarrow>
     (let n = length (trace w') - length (trace w)
      in drop n (trace w') = trace w \<and> \<not> list_ex closesWindow (take n (trace w')))"

text \<open>A manager in which client \<open>c1\<close> has window \<open>w1\<close>.\<close>

definition oneSession :: manager where
  "oneSession = newManager\<lparr>sessionWindowMap := [''c1'' \<mapsto> ''w1''],
                           sessionPathMap := [''c1'' \<mapsto> ''/home/me/project''],
                           sessionTabMap := [''c1'' \<mapsto> \<lparr>info_windowId = ''w1'',
                                                        info_tabIndex = Num 0,
                                                        info_tabName = None\<rparr>]\<rparr>"

text \<open>
  Every window identifier in the registry is a non-empty string: \<open>createSession\<close> is the
  only place that stores one, and it rejects an empty identifier.
\<close>

definition validWindowIds :: "manager \<Rightarrow> bool" where
  "validWindowIds m \<longleftrightarrow> (\<forall>clientId. sessionWindowMap m clientId \<noteq> Some [])"

text \<open>
  The world that one call of \<open>isWaitingForUserInput\<close> leaves when its first poll fails: the
  open of the device, that one poll with the time it took, and the close of the descriptor
  (only the failed open, when the device cannot be opened).
\<close>

definition afterFirstPoll :: "env \<Rightarrow> string \<Rightarrow> world \<Rightarrow> world" where
  "afterFirstPoll env ttyPath w =
     (case openSync env (Open ttyPath # trace w) of
        Inl m \<Rightarrow> w\<lparr>trace := Open ttyPath # trace w\<rparr>
      | Inr fd \<Rightarrow>
          \<lparr>now = now w + fst (getActiveProcess env (Inspect ttyPath # Open ttyPath # trace w)),
           trace = Close fd # Inspect ttyPath # Open ttyPath # trace w\<rparr>)"

text \<open>
  A terminal that is still processing when it is first asked, right after the submission,
  and whose inspector rejects every poll after \<open>delay\<close> milliseconds.
\<close>

definition busyEnv :: "nat \<Rightarrow> env" where
  "busyEnv delay =
     \<lparr>osascript = (\<lambda>tr. (0, Inr (case tr of
          Exec (GetContents wid tab) # rest \<Rightarrow> if rest = [] then ''$'' else ''$ ls\<newline>README.md''
        | Exec (GetTty wid tab) # rest \<Rightarrow> ''/dev/ttys000\<newline>''
        | Exec (GetIsProcessing wid tab) # rest \<Rightarrow>
            (case rest of Exec (WriteText wid' tab' typed) # earlier \<Rightarrow> ''true\<newline>''
                        | _ \<Rightarrow> ''false\<newline>'')
        | _ \<Rightarrow> []))),
      getActiveProcess = (\<lambda>tr. (delay, Inl ''ps: command failed'')),
      openSync = (\<lambda>tr. Inr 1)\<rparr>"

section \<open>The Phase B budget\<close>

lemma clamp_range: "1 \<le> clampTimeout arg \<and> clampTimeout arg \<le> 120"
  by (simp add: clampTimeout_def split: option.split)

lemma remainingTime_ge: "1000 \<le> remainingTime timeoutMs elapsedTime"
  by (simp add: remainingTime_def)

text \<open>
  C2 (as amended). For every timeout argument of the caller, clamped by the request handler
  into [1, 120] seconds, and whatever time has elapsed when Phase A ends: the remaining
  time that \<open>executeCommand\<close> computes is at least 1000 ms, and the timeout it then applies to
  Phase B, 93% of that remaining time capped at 70% of the whole timeout, is at least 700 ms.
  Both floors are met with room that the rounding of the source's doubles does not use up:
  the first is a maximum with 1000, the second rests on \<open>1000 * 0.93\<close> and \<open>1000 * 0.7\<close>.
\<close>

theorem C2_phaseB_budget:
  "1000 \<le> remainingTime (clampTimeout arg * 1000) elapsedTime
   \<and> 700 \<le> inputTimeout (clampTimeout arg * 1000) elapsedTime"
proof -
  let ?T = "clampTimeout arg"
  have r: "930 \<le> remainingTime (?T * 1000) elapsedTime * 0.93"
    using remainingTime_ge [of "?T * 1000" elapsedTime] by simp
  have c: "1 \<le> ?T" using clamp_range by simp
  then have t: "700 \<le> ?T * 1000 * 0.7" by simp
  from r t have "700 \<le> inputTimeout (?T * 1000) elapsedTime"
    by (simp add: inputTimeout_def)
  then show ?thesis using remainingTime_ge by simp
qed

text \<open>
  C2 as stated fails: with a timeout of 1 second and no time elapsed the Phase B timeout
  is 700 ms, below 1000 ms.
\<close>

theorem C2_phaseB_budget_counterexample:
  "\<not> 1000 \<le> inputTimeout (clampTimeout (Some 1) * 1000) 0"
  by (simp add: inputTimeout_def remainingTime_def clampTimeout_def)

section \<open>What a successful executeCommand returns\<close>

lemma execPromise_world:
  "execPromise env c w = (w1, r) \<Longrightarrow>
     trace w1 = Exec c # trace w
     \<and> now w1 = now w + fst (osascript env (Exec c # trace w))
     \<and> r = snd (osascript env (Exec c # trace w))"
  by (auto simp: execPromise_def Let_def split: prod.splits)

lemma retrieveBuffer_read:
  "retrieveBuffer env windowId tabIndex w = (w1, Inr buffer) \<Longrightarrow>
     trace w1 = Exec (GetContents windowId tabIndex) # trace w
     \<and> buffer = bufferRead env (trace w1)"
  by (auto simp: retrieveBuffer_def bufferRead_def dest!: execPromise_world
           split: prod.splits sum.splits)

lemma executeCommandWith_success:
  assumes "executeCommandWith capture env windowId command timeoutSeconds returnOutputLines
             tabIndex w = Inr (w', r)"
  shows "(\<exists>tr. trace w' = Exec (GetContents windowId tabIndex) # Sleep 200 # tr)
          \<and> newLines r = int (lineCount (bufferRead env (trace w')))
               - int (lineCount (bufferRead env (Exec (GetContents windowId tabIndex) # trace w)))
          \<and> outputText r =
               (if returnOutputLines > 0
                then (case capture (bufferRead env (trace w')) returnOutputLines of
                        Inr s \<Rightarrow> Some (Some s) | Inl e \<Rightarrow> Some None)
                else None)"
  using assms
  by (auto simp: executeCommandWith_def Let_def lineCount_def sleep_def
           dest!: retrieveBuffer_read split: prod.splits sum.splits)



lemma split_acc_newlines:
  "length (split_acc ''\<newline>'' acc s) = Suc (count_list s (CHR 0x0A))"
  by (induction "''\<newline>''" acc s rule: split_acc.induct) auto

text \<open>The line count of a buffer is one more than the number of its line feeds.\<close>

lemma lineCount_newlines: "lineCount buffer = Suc (count_list buffer (CHR 0x0A))"
  by (simp add: lineCount_def split_def split_acc_newlines)

lemma slice_from_last:
  "0 < n \<Longrightarrow> slice_from xs (- n - 1) = drop (length xs - nat (n + 1)) xs"
  by (auto simp: slice_from_def Let_def max_def nat_diff_distrib'
           intro: arg_cong2 [where f = drop])

lemma captureLines_last:
  "0 < n \<Longrightarrow> captureLines buffer n =
     Inr (join (drop (lineCount buffer - nat (n + 1)) (split buffer ''\<newline>'')) ''\<newline>'')"
  by (simp add: captureLines_def Let_def slice_from_last lineCount_def)

text \<open>Unfolding a run of \<open>executeCommand\<close> in a concrete environment.\<close>

lemmas run_defs =
  executeCommand_def executeCommandWith_def terminalEnv_def retrieveBuffer_def execPromise_def
  trim_def isWhiteSpace_def split_def withTimeout_def waitForProcessingComplete.simps
  isProcessing_def retrieveTtyPath_def waitForUserInputReady.simps isWaitingForUserInput_def
  openTty_def pollLoop.simps inspect_def finallyBlock_def closeSync_def sleep_def
  inputTimeout_def remainingTime_def start_def captureLines_def slice_from_def
  bufferRead_def lineCount_def

lemma executeCommandWith_run:
  assumes "executeCommandWith capture env windowId command timeoutSeconds returnOutputLines
             tabIndex w = Inr (w', r)"
  shows "\<exists>w1 before w2 written w3 w4 ttyPath w5 after.
     retrieveBuffer env windowId tabIndex w = (w1, Inr before)
   \<and> execPromise env (WriteText windowId tabIndex command) w1 = (w2, Inr written)
   \<and> withTimeout (waitForProcessingComplete env windowId tabIndex w2) w2
        (timeoutSeconds * 1000 * 0.25) (ProcessingTimedOut (timeoutSeconds * 1000 * 0.25 / 1000))
        = Inr (w3, ())
   \<and> retrieveTtyPath env windowId tabIndex w3 = (w4, Inr ttyPath)
   \<and> withTimeout (waitForUserInputReady env windowId ttyPath w4) w4
        (inputTimeout (timeoutSeconds * 1000) (of_int (int (now w3) - int (now w))))
        (CompletionTimedOut timeoutSeconds) = Inr (w5, ())
   \<and> retrieveBuffer env windowId tabIndex (sleep 200 w5) = (w', Inr after)
   \<and> r = \<lparr>newLines = int (length (split after ''\<newline>''))
                        - int (length (split before ''\<newline>'')),
            executionTime = int (now w') - int (now w),
            outputText = (if returnOutputLines > 0
                          then (case capture after returnOutputLines of
                                  Inr s \<Rightarrow> Some (Some s) | Inl e \<Rightarrow> Some None)
                          else None)\<rparr>"
  using assms
  by (auto simp: executeCommandWith_def Let_def split: prod.splits sum.splits)

lemma executeCommandWith_steps:
  assumes "retrieveBuffer env windowId tabIndex w = (w1, Inr before)"
    and "execPromise env (WriteText windowId tabIndex command) w1 = (w2, Inr written)"
    and "withTimeout (waitForProcessingComplete env windowId tabIndex w2) w2
        (timeoutSeconds * 1000 * 0.25) (ProcessingTimedOut (timeoutSeconds * 1000 * 0.25 / 1000))
        = Inr (w3, ())"
    and "retrieveTtyPath env windowId tabIndex w3 = (w4, Inr ttyPath)"
    and "withTimeout (waitForUserInputReady env windowId ttyPath w4) w4
        (inputTimeout (timeoutSeconds * 1000) (of_int (int (now w3) - int (now w))))
        (CompletionTimedOut timeoutSeconds) = Inr (w5, ())"
    and "retrieveBuffer env windowId tabIndex (sleep 200 w5) = (w', Inr after)"
  shows "executeCommandWith capture env windowId command timeoutSeconds returnOutputLines
             tabIndex w =
         Inr (w', \<lparr>newLines = int (length (split after ''\<newline>''))
                        - int (length (split before ''\<newline>'')),
            executionTime = int (now w') - int (now w),
            outputText = (if returnOutputLines > 0
                          then (case capture after returnOutputLines of
                                  Inr s \<Rightarrow> Some (Some s) | Inl e \<Rightarrow> Some None)
                          else None)\<rparr>)"
  using assms by (simp add: executeCommandWith_def Let_def)

lemma executeCommandWith_capture:
  assumes "executeCommandWith capture env windowId command timeoutSeconds returnOutputLines
             tabIndex w = Inr (w', r)"
  shows "executeCommandWith capture' env windowId command timeoutSeconds returnOutputLines
             tabIndex w =
         Inr (w', r\<lparr>outputText :=
                      (if returnOutputLines > 0
                       then (case capture' (bufferRead env (trace w')) returnOutputLines of
                               Inr s \<Rightarrow> Some (Some s) | Inl e \<Rightarrow> Some None)
                       else None)\<rparr>)"
proof -
  from executeCommandWith_run [OF assms] obtain w1 before w2 written w3 w4 ttyPath w5 after
    where steps: "retrieveBuffer env windowId tabIndex w = (w1, Inr before)"
     "execPromise env (WriteText windowId tabIndex command) w1 = (w2, Inr written)"
     "withTimeout (waitForProcessingComplete env windowId tabIndex w2) w2
        (timeoutSeconds * 1000 * 0.25) (ProcessingTimedOut (timeoutSeconds * 1000 * 0.25 / 1000))
        = Inr (w3, ())"
     "retrieveTtyPath env windowId tabIndex w3 = (w4, Inr ttyPath)"
     "withTimeout (waitForUserInputReady env windowId ttyPath w4) w4
        (inputTimeout (timeoutSeconds * 1000) (of_int (int (now w3) - int (now w))))
        (CompletionTimedOut timeoutSeconds) = Inr (w5, ())"
     "retrieveBuffer env windowId tabIndex (sleep 200 w5) = (w', Inr after)"
    and r: "r = \<lparr>newLines = int (length (split after ''\<newline>''))
                        - int (length (split before ''\<newline>'')),
            executionTime = int (now w') - int (now w),
            outputText = (if returnOutputLines > 0
                          then (case capture after returnOutputLines of
                                  Inr s \<Rightarrow> Some (Some s) | Inl e \<Rightarrow> Some None)
                          else None)\<rparr>"
    by blast
  have after: "after = bufferRead env (trace w')"
    using retrieveBuffer_read [OF steps(6)] by simp
  show ?thesis
    unfolding executeCommandWith_steps [OF steps] r after by simp
qed

section \<open>Line counts and captured output\<close>




text \<open>
  C4. For every successful \<open>executeCommand\<close> call, \<open>newLines\<close> equals the line count of the
  buffer read after the settle delay (the last request of the call, right after the sleep
  of 200 ms) minus the line count of the buffer read before submission (the first request
  of the call).
\<close>

theorem C4_newLines_difference:
  assumes "executeCommand env windowId command timeoutSeconds returnOutputLines tabIndex w
           = Inr (w', r)"
  shows "newLines r =
           int (lineCount (bufferRead env (trace w')))
           - int (lineCount (bufferRead env (Exec (GetContents windowId tabIndex) # trace w)))
         \<and> (\<exists>tr. trace w' = Exec (GetContents windowId tabIndex) # Sleep 200 # tr)"
  using assms unfolding executeCommand_def by (auto dest: executeCommandWith_success)

theorem C4_newLines_difference_witness:
  "executeCommand
     (terminalEnv ''line1\<newline>line2'' ''line1\<newline>line2\<newline>line3\<newline>line4\<newline>line5'' (Inr None))
     ''test-window-1'' ''echo'' 30 0 None start
     = Inr (\<lparr>now = 200,
             trace = [Exec (GetContents ''test-window-1'' None), Sleep 200, Close 1,
                      Inspect ''/dev/ttys000'', Open ''/dev/ttys000'',
                      Exec (GetTty ''test-window-1'' None),
                      Exec (GetIsProcessing ''test-window-1'' None),
                      Exec (WriteText ''test-window-1'' None ''echo''),
                      Exec (GetContents ''test-window-1'' None)]\<rparr>,
            \<lparr>newLines = 3, executionTime = 200, outputText = None\<rparr>)
   \<and> newLines \<lparr>newLines = 3, executionTime = 200, outputText = None\<rparr> = int 5 - int 2"
proof -
  let ?env = "terminalEnv ''line1\<newline>line2'' ''line1\<newline>line2\<newline>line3\<newline>line4\<newline>line5'' (Inr None)"
  let ?w' = "\<lparr>now = 200,
             trace = [Exec (GetContents ''test-window-1'' None), Sleep 200, Close 1,
                      Inspect ''/dev/ttys000'', Open ''/dev/ttys000'',
                      Exec (GetTty ''test-window-1'' None),
                      Exec (GetIsProcessing ''test-window-1'' None),
                      Exec (WriteText ''test-window-1'' None ''echo''),
                      Exec (GetContents ''test-window-1'' None)]\<rparr>"
  let ?r = "\<lparr>newLines = 3, executionTime = 200, outputText = None\<rparr>"
  have h: "executeCommand ?env ''test-window-1'' ''echo'' 30 0 None start = Inr (?w', ?r)"
    by (simp add: run_defs)
  have a: "lineCount (bufferRead ?env (trace ?w')) = 5"
    by (simp add: run_defs)
  have b: "lineCount (bufferRead ?env (Exec (GetContents ''test-window-1'' None) # trace start)) = 2"
    by (simp add: run_defs)
  from C4_newLines_difference [OF h] h a b show ?thesis by simp
qed

text \<open>
  C5. For every successful \<open>executeCommand\<close> call: with \<open>returnOutputLines = N > 0\<close> the
  output is the last \<open>N + 1\<close> lines of the after-buffer (all of them when there are fewer)
  joined by line feeds; with \<open>N = 0\<close> (or less) the output field is absent; and when the
  capture step throws, the call succeeds all the same, in the same world and with the same
  result except that the output is \<open>null\<close>.
\<close>

theorem C5_captured_output:
  assumes "executeCommand env windowId command timeoutSeconds returnOutputLines tabIndex w
           = Inr (w', r)"
  shows "outputText r =
           (if 0 < returnOutputLines
            then Some (Some (join (drop (lineCount (bufferRead env (trace w'))
                                           - nat (returnOutputLines + 1))
                                    (split (bufferRead env (trace w')) ''\<newline>'')) ''\<newline>''))
            else None)
         \<and> (0 < returnOutputLines
              \<and> capture (bufferRead env (trace w')) returnOutputLines = Inl e \<longrightarrow>
              executeCommandWith capture env windowId command timeoutSeconds returnOutputLines
                tabIndex w = Inr (w', r\<lparr>outputText := Some None\<rparr>))"
proof -
  from assms have s: "executeCommandWith captureLines env windowId command timeoutSeconds
      returnOutputLines tabIndex w = Inr (w', r)"
    by (simp add: executeCommand_def)
  have "outputText r =
          (if returnOutputLines > 0
           then (case captureLines (bufferRead env (trace w')) returnOutputLines of
                   Inr s \<Rightarrow> Some (Some s) | Inl e \<Rightarrow> Some None)
           else None)"
    using executeCommandWith_success [OF s] by simp
  then have first: "outputText r =
           (if 0 < returnOutputLines
            then Some (Some (join (drop (lineCount (bufferRead env (trace w'))
                                           - nat (returnOutputLines + 1))
                                    (split (bufferRead env (trace w')) ''\<newline>'')) ''\<newline>''))
            else None)"
    by (simp add: captureLines_last)
  have second: "executeCommandWith capture env windowId command timeoutSeconds returnOutputLines
                tabIndex w = Inr (w', r\<lparr>outputText := Some None\<rparr>)"
    if "0 < returnOutputLines" "capture (bufferRead env (trace w')) returnOutputLines = Inl e"
    using executeCommandWith_capture [OF s, of capture] that by simp
  from first second show ?thesis by blast
qed

theorem C5_captured_output_witness:
  "executeCommand
     (terminalEnv ''line1\<newline>line2'' ''line1\<newline>line2\<newline>line3\<newline>line4\<newline>line5'' (Inr None))
     ''test-window-1'' ''echo'' 30 2 None start
     = Inr (\<lparr>now = 200,
             trace = [Exec (GetContents ''test-window-1'' None), Sleep 200, Close 1,
                      Inspect ''/dev/ttys000'', Open ''/dev/ttys000'',
                      Exec (GetTty ''test-window-1'' None),
                      Exec (GetIsProcessing ''test-window-1'' None),
                      Exec (WriteText ''test-window-1'' None ''echo''),
                      Exec (GetContents ''test-window-1'' None)]\<rparr>,
            \<lparr>newLines = 3, executionTime = 200,
             outputText = Some (Some ''line3\<newline>line4\<newline>line5'')\<rparr>)
   \<and> executeCommandWith (\<lambda>buffer n. Inl (Rejected ''Failed to capture output''))
       (terminalEnv ''line1\<newline>line2'' ''line1\<newline>line2\<newline>line3\<newline>line4\<newline>line5'' (Inr None))
       ''test-window-1'' ''echo'' 30 2 None start
     = Inr (\<lparr>now = 200,
             trace = [Exec (GetContents ''test-window-1'' None), Sleep 200, Close 1,
                      Inspect ''/dev/ttys000'', Open ''/dev/ttys000'',
                      Exec (GetTty ''test-window-1'' None),
                      Exec (GetIsProcessing ''test-window-1'' None),
                      Exec (WriteText ''test-window-1'' None ''echo''),
                      Exec (GetContents ''test-window-1'' None)]\<rparr>,
            \<lparr>newLines = 3, executionTime = 200, outputText = Some None\<rparr>)"
proof -
  let ?env = "terminalEnv ''line1\<newline>line2'' ''line1\<newline>line2\<newline>line3\<newline>line4\<newline>line5'' (Inr None)"
  let ?w' = "\<lparr>now = 200,
             trace = [Exec (GetContents ''test-window-1'' None), Sleep 200, Close 1,
                      Inspect ''/dev/ttys000'', Open ''/dev/ttys000'',
                      Exec (GetTty ''test-window-1'' None),
                      Exec (GetIsProcessing ''test-window-1'' None),
                      Exec (WriteText ''test-window-1'' None ''echo''),
                      Exec (GetContents ''test-window-1'' None)]\<rparr>"
  let ?r = "\<lparr>newLines = 3, executionTime = 200,
             outputText = Some (Some ''line3\<newline>line4\<newline>line5'')\<rparr>"
  let ?capture = "\<lambda>(buffer::string) (n::int). (Inl (Rejected ''Failed to capture output'') :: error + string)"
  have h: "executeCommand ?env ''test-window-1'' ''echo'' 30 2 None start = Inr (?w', ?r)"
    by (simp add: run_defs)
  have c: "(0::int) < 2 \<and> ?capture (bufferRead ?env (trace ?w')) 2
             = Inl (Rejected ''Failed to capture output'')"
    by simp
  from C5_captured_output [OF h, of ?capture "Rejected ''Failed to capture output''"] c h
  show ?thesis by simp
qed

section \<open>Phase B: the idle check\<close>

lemma pollLoop_inspector_error:
  assumes "getActiveProcess env (Inspect ttyPath # trace w) = (d, Inl m)"
  shows "pollLoop env ttyPath below w =
           Some (\<lparr>now = now w + d, trace = Inspect ttyPath # trace w\<rparr>, Returns True)"
  using assms
  by (subst pollLoop.simps) (simp add: inspect_def Let_def)

lemma isWaitingForUserInput_true:
  "isWaitingForUserInput env ttyPath w = Some (w', r) \<Longrightarrow> r = Inr True"
  by (auto simp: isWaitingForUserInput_def finallyBlock_def split: prod.splits sum.splits option.splits)

lemma isWaitingForUserInput_last_event:
  "isWaitingForUserInput env ttyPath w = Some (w', r) \<Longrightarrow>
     (\<exists>fd tr. trace w' = Close fd # tr) \<or> trace w' = Open ttyPath # trace w"
  by (auto simp: isWaitingForUserInput_def finallyBlock_def closeSync_def openTty_def Let_def
           split: prod.splits sum.splits option.splits)

lemma waitForUserInputReady_single:
  "waitForUserInputReady env windowId ttyPath w =
     (case isWaitingForUserInput env ttyPath w of
        None \<Rightarrow> None
      | Some (w1, r) \<Rightarrow> Some (w1, Inr ()))"
  by (subst waitForUserInputReady.simps)
     (auto dest: isWaitingForUserInput_true split: option.splits prod.splits sum.splits)

text \<open>
  C9. Whenever \<open>isWaitingForUserInput\<close> returns, it returns \<open>true\<close> (it never throws and
  never returns \<open>false\<close>): the \<open>finally\<close> block replaces every completion. So
  \<open>waitForUserInputReady\<close> returns right after its first call of
  \<open>isWaitingForUserInput\<close>, in the world that call left (whose last event is the close of
  the descriptor, or the failed open), without running the body of its loop, the sleep of 100 ms.
\<close>

theorem C9_single_call:
  assumes "isWaitingForUserInput env ttyPath w = Some (w', r)"
  shows "r = Inr True
         \<and> waitForUserInputReady env windowId ttyPath w = Some (w', Inr ())
         \<and> ((\<exists>fd tr. trace w' = Close fd # tr) \<or> trace w' = Open ttyPath # trace w)"
  using assms isWaitingForUserInput_true [OF assms] isWaitingForUserInput_last_event [OF assms]
  by (simp add: waitForUserInputReady_single)

theorem C9_single_call_witness:
  "isWaitingForUserInput
     (terminalEnv [] [] (Inr (Some \<lparr>totalCPUPercent = 0.5\<rparr>))) ''/dev/ttys000'' start
     = Some (\<lparr>now = 700,
              trace = [Close 1, Inspect ''/dev/ttys000'', Sleep 350, Inspect ''/dev/ttys000'',
                       Sleep 350, Inspect ''/dev/ttys000'', Open ''/dev/ttys000'']\<rparr>, Inr True)
   \<and> waitForUserInputReady
       (terminalEnv [] [] (Inr (Some \<lparr>totalCPUPercent = 0.5\<rparr>))) ''1'' ''/dev/ttys000'' start
     = Some (\<lparr>now = 700,
              trace = [Close 1, Inspect ''/dev/ttys000'', Sleep 350, Inspect ''/dev/ttys000'',
                       Sleep 350, Inspect ''/dev/ttys000'', Open ''/dev/ttys000'']\<rparr>, Inr ())"
proof -
  let ?env = "terminalEnv [] [] (Inr (Some \<lparr>totalCPUPercent = 0.5\<rparr>))"
  let ?w' = "\<lparr>now = 700,
              trace = [Close 1, Inspect ''/dev/ttys000'', Sleep 350, Inspect ''/dev/ttys000'',
                       Sleep 350, Inspect ''/dev/ttys000'', Open ''/dev/ttys000'']\<rparr>"
  have h: "isWaitingForUserInput ?env ''/dev/ttys000'' start = Some (?w', Inr True)"
    by (simp add: run_defs)
  from C9_single_call [OF h, of "''1''"] h show ?thesis by simp
qed

lemma execPromise_reply:
  "osascript env (Exec c # trace w) = (d, r) \<Longrightarrow>
     execPromise env c w = (\<lparr>now = now w + d, trace = Exec c # trace w\<rparr>, r)"
  by (simp add: execPromise_def Let_def)

lemma isWaitingForUserInput_first_poll:
  assumes "\<forall>tr. \<exists>d m. getActiveProcess env tr = (d, Inl m)"
  shows "isWaitingForUserInput env ttyPath w = Some (afterFirstPoll env ttyPath w, Inr True)"
proof (cases "openSync env (Open ttyPath # trace w)")
  case (Inl m)
  then show ?thesis
    by (simp add: isWaitingForUserInput_def openTty_def Let_def finallyBlock_def afterFirstPoll_def)
next
  case (Inr fd)
  let ?w1 = "w\<lparr>trace := Open ttyPath # trace w\<rparr>"
  from assms obtain d m where g: "getActiveProcess env (Inspect ttyPath # trace ?w1) = (d, Inl m)"
    by blast
  have "pollLoop env ttyPath 0 ?w1
          = Some (\<lparr>now = now ?w1 + d, trace = Inspect ttyPath # trace ?w1\<rparr>, Returns True)"
    using g by (rule pollLoop_inspector_error)
  with Inr g show ?thesis
    by (simp add: isWaitingForUserInput_def openTty_def Let_def finallyBlock_def closeSync_def
                  afterFirstPoll_def)
qed

text \<open>
  C1 (as amended). If the Process Activity Inspector errors on every poll,
  \<open>isWaitingForUserInput\<close> returns \<open>true\<close> at its first poll instead of propagating the error,
  in the world \<open>afterFirstPoll\<close>. And once the steps of \<open>executeCommand\<close> before Phase B have
  succeeded (the first read of the buffer, the submission, Phase A within its timeout, the
  query of the device path), \<open>executeCommand\<close> reports the command as completed exactly when
  that first failure arrives before the Phase B timeout and the read of the buffer after the
  settle delay succeeds, with the result computed from the two buffers; otherwise it fails
  with the Phase B timeout or with the error of that read, never with the inspector's error.
\<close>

theorem C1_fail_open:
  assumes inspector: "\<forall>tr. \<exists>d m. getActiveProcess env tr = (d, Inl m)"
  shows "(\<exists>w'. isWaitingForUserInput env ttyPath v = Some (w', Inr True))
       \<and> isWaitingForUserInput env ttyPath v = Some (afterFirstPoll env ttyPath v, Inr True)
       \<and> (retrieveBuffer env windowId tabIndex w = (w1, Inr before)
           \<and> execPromise env (WriteText windowId tabIndex command) w1 = (w2, Inr written)
           \<and> withTimeout (waitForProcessingComplete env windowId tabIndex w2) w2
                (timeoutSeconds * 1000 * 0.25)
                (ProcessingTimedOut (timeoutSeconds * 1000 * 0.25 / 1000)) = Inr (w3, ())
           \<and> retrieveTtyPath env windowId tabIndex w3 = (w4, Inr tty)
           \<longrightarrow>
           executeCommand env windowId command timeoutSeconds returnOutputLines tabIndex w =
             (if of_nat (now (afterFirstPoll env tty w4) - now w4)
                   < inputTimeout (timeoutSeconds * 1000) (of_int (int (now w3) - int (now w)))
              then (case retrieveBuffer env windowId tabIndex (sleep 200 (afterFirstPoll env tty w4)) of
                      (w', Inr after) \<Rightarrow>
                        Inr (w', \<lparr>newLines = int (lineCount after) - int (lineCount before),
                                  executionTime = int (now w') - int (now w),
                                  outputText =
                                    (if 0 < returnOutputLines
                                     then (case captureLines after returnOutputLines of
                                             Inr s \<Rightarrow> Some (Some s) | Inl e \<Rightarrow> Some None)
                                     else None)\<rparr>)
                    | (w', Inl e) \<Rightarrow> Inl (ExecuteFailed e))
              else Inl (ExecuteFailed (CompletionTimedOut timeoutSeconds))))"
proof -
  have call: "isWaitingForUserInput env p v = Some (afterFirstPoll env p v, Inr True)" for p v
    using inspector by (rule isWaitingForUserInput_first_poll)
  have loop: "waitForUserInputReady env windowId tty w4 = Some (afterFirstPoll env tty w4, Inr ())"
    by (simp add: waitForUserInputReady_single call)
  have phaseB: "withTimeout (waitForUserInputReady env windowId tty w4) w4 budget e =
      (if of_nat (now (afterFirstPoll env tty w4) - now w4) < budget
       then Inr (afterFirstPoll env tty w4, ()) else Inl e)" for budget e
    by (simp add: loop withTimeout_def)
  have run: "executeCommand env windowId command timeoutSeconds returnOutputLines tabIndex w =
             (if of_nat (now (afterFirstPoll env tty w4) - now w4)
                   < inputTimeout (timeoutSeconds * 1000) (of_int (int (now w3) - int (now w)))
              then (case retrieveBuffer env windowId tabIndex (sleep 200 (afterFirstPoll env tty w4)) of
                      (w', Inr after) \<Rightarrow>
                        Inr (w', \<lparr>newLines = int (lineCount after) - int (lineCount before),
                                  executionTime = int (now w') - int (now w),
                                  outputText =
                                    (if 0 < returnOutputLines
                                     then (case captureLines after returnOutputLines of
                                             Inr s \<Rightarrow> Some (Some s) | Inl e \<Rightarrow> Some None)
                                     else None)\<rparr>)
                    | (w', Inl e) \<Rightarrow> Inl (ExecuteFailed e))
              else Inl (ExecuteFailed (CompletionTimedOut timeoutSeconds)))"
    if steps: "retrieveBuffer env windowId tabIndex w = (w1, Inr before)
           \<and> execPromise env (WriteText windowId tabIndex command) w1 = (w2, Inr written)
           \<and> withTimeout (waitForProcessingComplete env windowId tabIndex w2) w2
                (timeoutSeconds * 1000 * 0.25)
                (ProcessingTimedOut (timeoutSeconds * 1000 * 0.25 / 1000)) = Inr (w3, ())
           \<and> retrieveTtyPath env windowId tabIndex w3 = (w4, Inr tty)"
    using steps
    by (simp add: executeCommand_def executeCommandWith_def Let_def phaseB lineCount_def
             split: prod.splits sum.splits)
  from call run show ?thesis by blast
qed

theorem C1_fail_open_witness:
  "(\<forall>tr. \<exists>d m. getActiveProcess (busyEnv 1000) tr = (d, Inl m))
   \<and> isWaitingForUserInput (busyEnv 1000) ''/dev/ttys000''
         \<lparr>now = 100,
          trace = [Exec (GetTty ''1'' None), Exec (GetIsProcessing ''1'' None), Sleep 100,
                   Exec (GetIsProcessing ''1'' None), Exec (WriteText ''1'' None ''ls''),
                   Exec (GetContents ''1'' None)]\<rparr>
       = Some (\<lparr>now = 1100,
                trace = [Close 1, Inspect ''/dev/ttys000'', Open ''/dev/ttys000'',
                         Exec (GetTty ''1'' None), Exec (GetIsProcessing ''1'' None), Sleep 100,
                         Exec (GetIsProcessing ''1'' None), Exec (WriteText ''1'' None ''ls''),
                         Exec (GetContents ''1'' None)]\<rparr>, Inr True)
   \<and> executeCommand (busyEnv 1000) ''1'' ''ls'' 30 0 None start
       = Inr (\<lparr>now = 1300,
               trace = [Exec (GetContents ''1'' None), Sleep 200, Close 1,
                        Inspect ''/dev/ttys000'', Open ''/dev/ttys000'',
                        Exec (GetTty ''1'' None), Exec (GetIsProcessing ''1'' None), Sleep 100,
                        Exec (GetIsProcessing ''1'' None), Exec (WriteText ''1'' None ''ls''),
                        Exec (GetContents ''1'' None)]\<rparr>,
              \<lparr>newLines = 1, executionTime = 1300, outputText = None\<rparr>)"
proof -
  let ?env = "busyEnv 1000"
  let ?w1 = "\<lparr>now = 0, trace = [Exec (GetContents ''1'' None)]\<rparr>"
  let ?w2 = "\<lparr>now = 0, trace = [Exec (WriteText ''1'' None ''ls''), Exec (GetContents ''1'' None)]\<rparr>"
  let ?w3 = "\<lparr>now = 100,
             trace = [Exec (GetIsProcessing ''1'' None), Sleep 100,
                      Exec (GetIsProcessing ''1'' None), Exec (WriteText ''1'' None ''ls''),
                      Exec (GetContents ''1'' None)]\<rparr>"
  let ?w4 = "\<lparr>now = 100,
             trace = [Exec (GetTty ''1'' None), Exec (GetIsProcessing ''1'' None), Sleep 100,
                      Exec (GetIsProcessing ''1'' None), Exec (WriteText ''1'' None ''ls''),
                      Exec (GetContents ''1'' None)]\<rparr>"
  have inspector: "\<forall>tr. \<exists>d m. getActiveProcess ?env tr = (d, Inl m)"
    by (simp add: busyEnv_def)
  have steps: "retrieveBuffer ?env ''1'' None start = (?w1, Inr ''$'')
           \<and> execPromise ?env (WriteText ''1'' None ''ls'') ?w1 = (?w2, Inr [])
           \<and> withTimeout (waitForProcessingComplete ?env ''1'' None ?w2) ?w2
                (30 * 1000 * 0.25) (ProcessingTimedOut (30 * 1000 * 0.25 / 1000)) = Inr (?w3, ())
           \<and> retrieveTtyPath ?env ''1'' None ?w3 = (?w4, Inr ''/dev/ttys000'')"
    by (simp add: run_defs busyEnv_def)
  from C1_fail_open [OF inspector, of "''/dev/ttys000''" ?w4 "''1''" None start ?w1 "''$''" "''ls''" ?w2
                 "[]" 30 ?w3 ?w4 "''/dev/ttys000''" 0] steps
  have "isWaitingForUserInput ?env ''/dev/ttys000'' ?w4
          = Some (afterFirstPoll ?env ''/dev/ttys000'' ?w4, Inr True)"
    and "executeCommand ?env ''1'' ''ls'' 30 0 None start =
             (if of_nat (now (afterFirstPoll ?env ''/dev/ttys000'' ?w4) - now ?w4)
                   < inputTimeout (30 * 1000) (of_int (int (now ?w3) - int (now start)))
              then (case retrieveBuffer ?env ''1'' None
                           (sleep 200 (afterFirstPoll ?env ''/dev/ttys000'' ?w4)) of
                      (w', Inr after) \<Rightarrow>
                        Inr (w', \<lparr>newLines = int (lineCount after) - int (lineCount ''$''),
                                  executionTime = int (now w') - int (now start),
                                  outputText =
                                    (if (0::int) < 0
                                     then (case captureLines after 0 of
                                             Inr s \<Rightarrow> Some (Some s) | Inl e \<Rightarrow> Some None)
                                     else None)\<rparr>)
                    | (w', Inl e) \<Rightarrow> Inl (ExecuteFailed e))
              else Inl (ExecuteFailed (CompletionTimedOut 30)))"
    by blast+
  then show ?thesis
    using inspector by (simp add: run_defs busyEnv_def afterFirstPoll_def)
qed

text \<open>
  C1 as stated fails: that the inspector errors on every poll does not make the call
  complete. With a timeout of 1 second the Phase B timeout is 700 ms; an inspector that
  rejects its poll after 800 ms makes \<open>isWaitingForUserInput\<close> return \<open>true\<close>, but by then
  the timer has rejected the call.
\<close>

theorem C1_fail_open_counterexample:
  "getActiveProcess (busyEnv 800)
     [Inspect ''/dev/ttys000'', Open ''/dev/ttys000'', Exec (GetTty ''1'' None),
      Exec (GetIsProcessing ''1'' None), Sleep 100, Exec (GetIsProcessing ''1'' None),
      Exec (WriteText ''1'' None ''ls''), Exec (GetContents ''1'' None)]
     = (800, Inl ''ps: command failed'')
   \<and> isWaitingForUserInput (busyEnv 800) ''/dev/ttys000''
         \<lparr>now = 100,
          trace = [Exec (GetTty ''1'' None), Exec (GetIsProcessing ''1'' None), Sleep 100,
                   Exec (GetIsProcessing ''1'' None), Exec (WriteText ''1'' None ''ls''),
                   Exec (GetContents ''1'' None)]\<rparr>
       = Some (\<lparr>now = 900,
                trace = [Close 1, Inspect ''/dev/ttys000'', Open ''/dev/ttys000'',
                         Exec (GetTty ''1'' None), Exec (GetIsProcessing ''1'' None), Sleep 100,
                         Exec (GetIsProcessing ''1'' None), Exec (WriteText ''1'' None ''ls''),
                         Exec (GetContents ''1'' None)]\<rparr>, Inr True)
   \<and> executeCommand (busyEnv 800) ''1'' ''ls'' 1 0 None start
       = Inl (ExecuteFailed (CompletionTimedOut 1))"
  by (simp add: run_defs busyEnv_def)

section \<open>Resolving a tab identifier\<close>

text \<open>\<open>parseInt\<close> reads a leading integer: an identifier such as \<open>2nd\<close> is tab 2.\<close>

lemma parseInt_leading_digits: "parseInt ''2nd'' = Num 2 \<and> parseInt ''tab2'' = NaN"
  by (simp add: parseInt_def isWhiteSpace_def isDigit_def digitsValue_def digitValue_def)

text \<open>
  C6. \<open>resolveTabIndex\<close> on a string resolves in the order number, alias, name. When
  \<open>parseInt\<close> reads an integer from the identifier, that integer is the result, whatever the
  aliases and the tabs are, and the bridge is not asked (the world is unchanged). Otherwise an
  alias of the window that equals the identifier gives the result, whatever the tabs are
  named, again without asking the bridge. Otherwise the tab list decides. An error is raised
  only when all three fail: no integer, no alias, and the lookup by name fails or finds no tab.
\<close>

theorem C6_resolution_order:
  "(parseInt s = Num i \<longrightarrow>
      resolveTabIndex env aliasTable windowId (IdString s) w = (w, Inr (Num i)))
   \<and> (parseInt s = NaN \<and> getTabIndexByAlias aliasTable windowId s = Some a \<longrightarrow>
      resolveTabIndex env aliasTable windowId (IdString s) w = (w, Inr a))
   \<and> (parseInt s = NaN \<and> getTabIndexByAlias aliasTable windowId s = None
        \<and> getTabIndex env aliasTable windowId s w = (w', Inr (Some t)) \<longrightarrow>
      resolveTabIndex env aliasTable windowId (IdString s) w = (w', Inr t))
   \<and> (resolveTabIndex env aliasTable windowId (IdString s) w = (w', Inl e) \<longrightarrow>
      parseInt s = NaN \<and> getTabIndexByAlias aliasTable windowId s = None
      \<and> (getTabIndex env aliasTable windowId s w = (w', Inl e)
          \<or> getTabIndex env aliasTable windowId s w = (w', Inr None)
             \<and> e = ''Tab not found: '' @ s))"
  by (auto simp: resolveTabIndex_def split: jsnumber.splits option.splits prod.splits sum.splits)

lemmas tab_defs =
  resolveTabIndex_def getTabIndexByAlias_def getTabIndex_def listTabs_def parseTab_def
  getTabAlias_def setTabAlias_def noAliases_def field_def execPromise_def bridgeEnv_def
  threeTabs_def windowGone_def start_def split_def trim_def isWhiteSpace_def parseInt_def
  isDigit_def digitsValue_def digitValue_def closeTab_def

theorem C6_resolution_order_witness:
  "resolveTabIndex (bridgeEnv threeTabs) (setTabAlias noAliases ''w1'' (Num 2) ''x'') ''w1''
     (IdString ''0'') start = (start, Inr (Num 0))
   \<and> resolveTabIndex (bridgeEnv threeTabs) (setTabAlias noAliases ''w1'' (Num 2) ''x'') ''w1''
     (IdString ''x'') start = (start, Inr (Num 2))
   \<and> getTabIndex (bridgeEnv threeTabs) (setTabAlias noAliases ''w1'' (Num 2) ''x'') ''w1''
     ''x'' start = (\<lparr>now = 0, trace = [Exec (ListTabs ''w1'')]\<rparr>, Inr (Some (Num 0)))
   \<and> resolveTabIndex (bridgeEnv threeTabs) (setTabAlias noAliases ''w1'' (Num 2) ''x'') ''w1''
     (IdString ''y'') start = (\<lparr>now = 0, trace = [Exec (ListTabs ''w1'')]\<rparr>, Inr (Num 1))
   \<and> resolveTabIndex (bridgeEnv threeTabs) (setTabAlias noAliases ''w1'' (Num 2) ''x'') ''w1''
     (IdString ''q'') start
       = (\<lparr>now = 0, trace = [Exec (ListTabs ''w1'')]\<rparr>, Inl ''Tab not found: q'')
   \<and> parseInt ''q'' = NaN
   \<and> getTabIndexByAlias (setTabAlias noAliases ''w1'' (Num 2) ''x'') ''w1'' ''q'' = None"
proof -
  let ?env = "bridgeEnv threeTabs"
  let ?al = "setTabAlias noAliases ''w1'' (Num 2) ''x''"
  let ?w1 = "\<lparr>now = 0, trace = [Exec (ListTabs ''w1'')]\<rparr>"
  have n0: "parseInt ''0'' = Num 0" by (simp add: tab_defs)
  have nx: "parseInt ''x'' = NaN \<and> getTabIndexByAlias ?al ''w1'' ''x'' = Some (Num 2)"
    by (simp add: tab_defs)
  have gx: "getTabIndex ?env ?al ''w1'' ''x'' start = (?w1, Inr (Some (Num 0)))"
    by (simp add: tab_defs)
  have ny: "parseInt ''y'' = NaN \<and> getTabIndexByAlias ?al ''w1'' ''y'' = None
            \<and> getTabIndex ?env ?al ''w1'' ''y'' start = (?w1, Inr (Some (Num 1)))"
    by (simp add: tab_defs)
  have rq: "resolveTabIndex ?env ?al ''w1'' (IdString ''q'') start = (?w1, Inl ''Tab not found: q'')"
    by (simp add: tab_defs)
  from C6_resolution_order [of "''0''" 0 ?env ?al "''w1''" start] n0
  have a: "resolveTabIndex ?env ?al ''w1'' (IdString ''0'') start = (start, Inr (Num 0))"
    by blast
  from C6_resolution_order [of "''x''" _ ?env ?al "''w1''" start "Num 2"] nx
  have b: "resolveTabIndex ?env ?al ''w1'' (IdString ''x'') start = (start, Inr (Num 2))"
    by blast
  from C6_resolution_order [of "''y''" _ ?env ?al "''w1''" start _ ?w1 "Num 1"] ny
  have c: "resolveTabIndex ?env ?al ''w1'' (IdString ''y'') start = (?w1, Inr (Num 1))"
    by blast
  from C6_resolution_order [of "''q''" _ ?env ?al "''w1''" start _ ?w1 _ "''Tab not found: q''"] rq
  have d: "parseInt ''q'' = NaN \<and> getTabIndexByAlias ?al ''w1'' ''q'' = None"
    by blast
  from a b gx c rq d show ?thesis by blast
qed

section \<open>The alias table\<close>

lemma mapSet_key_set: "fst ` set (mapSet k v kvs) = insert k (fst ` set kvs)"
proof (induction kvs)
  case Nil
  show ?case by simp
next
  case (Cons kv kvs)
  obtain k' v' where kv: "kv = (k', v')" by (cases kv)
  show ?case
  proof (cases "k' = k")
    case True
    then show ?thesis by (simp add: kv)
  next
    case False
    then show ?thesis using Cons by (simp add: kv insert_commute)
  qed
qed

lemma mapSet_keys: "distinct (map fst kvs) \<Longrightarrow> distinct (map fst (mapSet k v kvs))"
proof (induction kvs)
  case Nil
  show ?case by simp
next
  case (Cons kv kvs)
  obtain k' v' where kv: "kv = (k', v')" by (cases kv)
  show ?case
  proof (cases "k' = k")
    case True
    then show ?thesis using Cons.prems by (simp add: kv)
  next
    case False
    then show ?thesis using Cons by (simp add: kv mapSet_key_set)
  qed
qed

lemma mapDelete_keys: "distinct (map fst kvs) \<Longrightarrow> distinct (map fst (mapDelete k kvs))"
  by (simp add: mapDelete_def distinct_map_filter)

lemma applyAliasOp_keys:
  assumes "distinct (map fst (entries t windowId))"
  shows "distinct (map fst (entries (applyAliasOp t op) windowId))"
  using assms
  by (cases op)
     (auto simp: entries_def setTabAlias_def removeTabAlias_def clearWindowAliases_def
                 mapSet_keys mapDelete_keys split: option.splits if_splits)

lemma foldl_alias_keys:
  "distinct (map fst (entries t windowId)) \<Longrightarrow>
     distinct (map fst (entries (foldl applyAliasOp t ops) windowId))"
  by (induction ops arbitrary: t) (simp_all add: applyAliasOp_keys)

lemma applyAliasOp_other_window:
  "opWindow op \<noteq> windowId \<Longrightarrow> applyAliasOp t op windowId = t windowId"
  by (cases op)
     (auto simp: setTabAlias_def removeTabAlias_def clearWindowAliases_def split: option.splits)

lemma firstWithAlias_holders:
  "firstWithAlias alias kvs =
     (case map fst (filter (\<lambda>kv. snd kv = alias) kvs) of [] \<Rightarrow> None | i # rest \<Rightarrow> Some i)"
  by (induction kvs) auto

text \<open>
  C7 (as amended). After any sequence of \<open>setTabAlias\<close>, \<open>removeTabAlias\<close> and
  \<open>clearWindowAliases\<close> operations, within any single window each tab index holds at most
  one alias; an operation on one window leaves the aliases of every other window as they
  are; and \<open>getTabIndexByAlias\<close> returns the first tab index, in the order of the window's
  map, that holds the alias (none when no index holds it).
\<close>

theorem C7_alias_table:
  "distinct (map fst (entries (runAliasOps ops) windowId))
   \<and> (opWindow op \<noteq> windowId \<longrightarrow>
        applyAliasOp (runAliasOps ops) op windowId = runAliasOps ops windowId)
   \<and> getTabIndexByAlias (runAliasOps ops) windowId alias =
        (case holders (runAliasOps ops) windowId alias of [] \<Rightarrow> None | i # rest \<Rightarrow> Some i)"
proof -
  have "distinct (map fst (entries noAliases windowId))"
    by (simp add: entries_def noAliases_def)
  then have keys: "distinct (map fst (entries (runAliasOps ops) windowId))"
    unfolding runAliasOps_def by (rule foldl_alias_keys)
  have lookup: "getTabIndexByAlias (runAliasOps ops) windowId alias =
        (case holders (runAliasOps ops) windowId alias of [] \<Rightarrow> None | i # rest \<Rightarrow> Some i)"
    by (simp add: getTabIndexByAlias_def holders_def firstWithAlias_holders split: option.splits)
  from keys lookup show ?thesis by (simp add: applyAliasOp_other_window)
qed

lemmas alias_defs =
  runAliasOps_def noAliases_def setTabAlias_def removeTabAlias_def clearWindowAliases_def
  holders_def entries_def getTabIndexByAlias_def mapDelete_def

theorem C7_alias_table_witness:
  "opWindow (SetTabAlias ''w2'' (Num 1) ''x'') \<noteq> ''w1''
   \<and> applyAliasOp (runAliasOps [SetTabAlias ''w1'' (Num 0) ''x'']) (SetTabAlias ''w2'' (Num 1) ''x'')
        ''w1'' = Some [(Num 0, ''x'')]
   \<and> holders (runAliasOps [SetTabAlias ''w1'' (Num 0) ''x'', SetTabAlias ''w2'' (Num 1) ''x''])
        ''w2'' ''x'' = [Num 1]
   \<and> distinct (map fst (entries (runAliasOps [SetTabAlias ''w1'' (Num 0) ''x'']) ''w1''))"
proof -
  have h: "opWindow (SetTabAlias ''w2'' (Num 1) ''x'') \<noteq> ''w1''" by simp
  have r: "runAliasOps [SetTabAlias ''w1'' (Num 0) ''x''] ''w1'' = Some [(Num 0, ''x'')]"
    by (simp add: alias_defs)
  have o: "holders (runAliasOps [SetTabAlias ''w1'' (Num 0) ''x'', SetTabAlias ''w2'' (Num 1) ''x''])
        ''w2'' ''x'' = [Num 1]"
    by (simp add: alias_defs)
  from C7_alias_table [of "[SetTabAlias ''w1'' (Num 0) ''x'']" "''w1''"
                          "SetTabAlias ''w2'' (Num 1) ''x''" "''x''"] h r o
  show ?thesis by simp
qed

text \<open>
  C7 as stated fails: \<open>setTabAlias\<close> does not look for other holders of the alias, so after
  giving tabs 0 and 1 of one window the alias \<open>x\<close>, two tab indices hold it.
\<close>

theorem C7_alias_unique_counterexample:
  "holders (runAliasOps [SetTabAlias ''w1'' (Num 0) ''x'', SetTabAlias ''w1'' (Num 1) ''x''])
     ''w1'' ''x'' = [Num 0, Num 1]
   \<and> \<not> length (holders (runAliasOps [SetTabAlias ''w1'' (Num 0) ''x'',
                                       SetTabAlias ''w1'' (Num 1) ''x'']) ''w1'' ''x'') \<le> 1"
  by (simp add: alias_defs)

section \<open>Ending a session\<close>

lemma createSession_window_id:
  "createSession resolve env m clientId workingDir w = (w', m', Inr windowId) \<Longrightarrow>
     windowId \<noteq> [] \<and> sessionWindowMap m' = (sessionWindowMap m)(clientId \<mapsto> windowId)"
  by (auto simp: createSession_def Let_def split: prod.splits sum.splits if_splits option.splits)

lemma createSession_failed:
  "createSession resolve env m clientId workingDir w = (w', m', Inl e) \<Longrightarrow> m' = m"
  by (auto simp: createSession_def Let_def split: prod.splits sum.splits if_splits option.splits)

lemma newManager_valid: "validWindowIds newManager"
  by (simp add: validWindowIds_def newManager_def)

lemma createSession_valid:
  "validWindowIds m \<Longrightarrow> createSession resolve env m clientId workingDir w = (w', m', r) \<Longrightarrow>
     validWindowIds m'"
  by (cases r)
     (auto simp: validWindowIds_def split: if_splits
           dest!: createSession_window_id createSession_failed)

lemma endSession_valid:
  "validWindowIds m \<Longrightarrow> endSession env m clientId w = (w', m', r) \<Longrightarrow> validWindowIds m'"
  by (auto simp: validWindowIds_def endSession_def split: option.splits if_splits prod.splits sum.splits)

text \<open>
  C8. \<open>endSession\<close> never throws. For a client without a session it changes neither the
  registries nor the world (no request is made, nothing is created). For a client with a
  session (its window identifier is non-empty, as \<open>validWindowIds\<close> says of every stored
  one) it asks the bridge to close the window and removes the client's entries from the
  window map, the path map and the tab map, whatever the bridge answers, so also when the
  close call fails.
\<close>

theorem C8_endSession:
  "(\<exists>w' m'. endSession env m clientId w = (w', m', Inr ()))
   \<and> (sessionWindowMap m clientId = None \<longrightarrow> endSession env m clientId w = (w, m, Inr ()))
   \<and> (sessionWindowMap m clientId = Some windowId \<and> windowId \<noteq> [] \<longrightarrow>
        (\<exists>w'. endSession env m clientId w =
                (w', m\<lparr>sessionWindowMap := (sessionWindowMap m)(clientId := None),
                       sessionPathMap := (sessionPathMap m)(clientId := None),
                       sessionTabMap := (sessionTabMap m)(clientId := None)\<rparr>, Inr ())
              \<and> trace w' = Exec (CloseWindow windowId) # trace w))"
  by (auto simp: endSession_def dest: execPromise_world split: prod.splits sum.splits option.splits)

theorem C8_endSession_witness:
  "sessionWindowMap oneSession ''nobody'' = None
   \<and> endSession (bridgeEnv windowGone) oneSession ''nobody'' start = (start, oneSession, Inr ())
   \<and> sessionWindowMap oneSession ''c1'' = Some ''w1''
   \<and> snd (osascript (bridgeEnv windowGone) (Exec (CloseWindow ''w1'') # trace start))
        = Inl ''Window already closed''
   \<and> (\<exists>w'. endSession (bridgeEnv windowGone) oneSession ''c1'' start =
              (w', oneSession\<lparr>sessionWindowMap := (sessionWindowMap oneSession)(''c1'' := None),
                              sessionPathMap := (sessionPathMap oneSession)(''c1'' := None),
                              sessionTabMap := (sessionTabMap oneSession)(''c1'' := None)\<rparr>,
               Inr ())
            \<and> trace w' = Exec (CloseWindow ''w1'') # trace start)"
proof -
  have a: "sessionWindowMap oneSession ''nobody'' = None"
    by (simp add: oneSession_def newManager_def)
  have b: "sessionWindowMap oneSession ''c1'' = Some ''w1'' \<and> ''w1'' \<noteq> []"
    by (simp add: oneSession_def newManager_def)
  have c: "snd (osascript (bridgeEnv windowGone) (Exec (CloseWindow ''w1'') # trace start))
        = Inl ''Window already closed''"
    by (simp add: bridgeEnv_def windowGone_def)
  from C8_endSession [of "bridgeEnv windowGone" oneSession "''nobody''" start] a
  have d: "endSession (bridgeEnv windowGone) oneSession ''nobody'' start = (start, oneSession, Inr ())"
    by blast
  from C8_endSession [of "bridgeEnv windowGone" oneSession "''c1''" start "''w1''"] b
  have e: "\<exists>w'. endSession (bridgeEnv windowGone) oneSession ''c1'' start =
              (w', oneSession\<lparr>sessionWindowMap := (sessionWindowMap oneSession)(''c1'' := None),
                              sessionPathMap := (sessionPathMap oneSession)(''c1'' := None),
                              sessionTabMap := (sessionTabMap oneSession)(''c1'' := None)\<rparr>,
               Inr ())
            \<and> trace w' = Exec (CloseWindow ''w1'') # trace start"
    by blast
  from a b c d e show ?thesis by blast
qed

section \<open>Closing tabs\<close>

lemma char_eq_code: "x = y \<longleftrightarrow> (of_char x :: nat) = of_char y"
  by auto

lemma lowerChar_a: "lowerChar c = CHR ''a'' \<longleftrightarrow> c = CHR ''a'' \<or> c = CHR ''A''"
proof -
  have lt: "(of_char c :: nat) < 256" by simp
  show ?thesis
    unfolding lowerChar_def Let_def char_eq_code [of _ "CHR ''a''"] char_eq_code [of _ "CHR ''A''"]
    using lt by (auto simp: of_char_of [where ?'a = nat] take_bit_eq_mod)
qed

lemma lowerChar_l: "lowerChar c = CHR ''l'' \<longleftrightarrow> c = CHR ''l'' \<or> c = CHR ''L''"
proof -
  have lt: "(of_char c :: nat) < 256" by simp
  show ?thesis
    unfolding lowerChar_def Let_def char_eq_code [of _ "CHR ''l''"] char_eq_code [of _ "CHR ''L''"]
    using lt by (auto simp: of_char_of [where ?'a = nat] take_bit_eq_mod)
qed

text \<open>The strings that \<open>toLowerCase\<close> sends to \<open>all\<close> are the spellings of \<open>all\<close> in either case.\<close>

lemma toLowerCase_all:
  "toLowerCase t = ''all'' \<longleftrightarrow>
     (\<exists>a b c. t = [a, b, c] \<and> a \<in> {CHR ''a'', CHR ''A''} \<and> b \<in> {CHR ''l'', CHR ''L''}
                \<and> c \<in> {CHR ''l'', CHR ''L''})"
proof -
  have "toLowerCase t = ''all'' \<longleftrightarrow>
      (\<exists>a b c. t = [a, b, c] \<and> lowerChar a = CHR ''a'' \<and> lowerChar b = CHR ''l''
                 \<and> lowerChar c = CHR ''l'')"
    unfolding toLowerCase_def by (simp add: map_eq_Cons_conv) blast
  then show ?thesis by (simp add: lowerChar_a lowerChar_l)
qed

lemma keepsWindows_iff:
  "keepsWindows w w' \<longleftrightarrow>
     (\<exists>new. trace w' = new @ trace w \<and> (\<forall>e \<in> set new. \<not> closesWindow e))"
proof
  assume k: "keepsWindows w w'"
  let ?n = "length (trace w') - length (trace w)"
  from k have "trace w' = take ?n (trace w') @ trace w"
    by (metis append_take_drop_id keepsWindows_def)
  moreover from k have "\<forall>e \<in> set (take ?n (trace w')). \<not> closesWindow e"
    by (simp add: keepsWindows_def Let_def list_ex_iff)
  ultimately show "\<exists>new. trace w' = new @ trace w \<and> (\<forall>e \<in> set new. \<not> closesWindow e)"
    by blast
next
  assume "\<exists>new. trace w' = new @ trace w \<and> (\<forall>e \<in> set new. \<not> closesWindow e)"
  then show "keepsWindows w w'"
    by (auto simp: keepsWindows_def Let_def list_ex_iff)
qed

lemma keepsWindows_refl: "keepsWindows w w"
  by (simp add: keepsWindows_iff)

lemma keepsWindows_trans: "keepsWindows a b \<Longrightarrow> keepsWindows b c \<Longrightarrow> keepsWindows a c"
  by (fastforce simp: keepsWindows_iff)

lemma execPromise_keeps:
  "\<not> closesWindow (Exec c) \<Longrightarrow> execPromise env c w = (w1, r) \<Longrightarrow> keepsWindows w w1"
  by (auto simp: keepsWindows_iff dest!: execPromise_world)

lemma listTabs_keeps: "listTabs env al windowId w = (w1, r) \<Longrightarrow> keepsWindows w w1"
  by (auto simp: listTabs_def Let_def split: prod.splits sum.splits if_splits
           dest: execPromise_keeps [rotated])

lemma getTabIndex_keeps: "getTabIndex env al windowId tabName w = (w1, r) \<Longrightarrow> keepsWindows w w1"
  by (auto simp: getTabIndex_def split: prod.splits sum.splits dest: listTabs_keeps)

lemma resolveTabIndex_keeps:
  "resolveTabIndex env al windowId tabIdentifier w = (w1, r) \<Longrightarrow> keepsWindows w w1"
  by (auto simp: resolveTabIndex_def keepsWindows_refl
           split: tab_identifier.splits jsnumber.splits option.splits prod.splits sum.splits
           dest: getTabIndex_keeps)

lemma closeTab_keeps: "closeTab env windowId tabIndex w = (w1, r) \<Longrightarrow> keepsWindows w w1"
  by (auto simp: closeTab_def split: prod.splits sum.splits dest: execPromise_keeps [rotated])

lemma closeSessionTab_keeps:
  assumes "closeSessionTab env m clientId tabIdentifier w = (w', m', r)"
  shows "keepsWindows w w' \<and> sessionWindowMap m' = sessionWindowMap m"
  using assms
  by (auto simp: closeSessionTab_def keepsWindows_refl
           split: option.splits if_splits prod.splits sum.splits
           dest!: resolveTabIndex_keeps closeTab_keeps listTabs_keeps
           intro: keepsWindows_trans)

lemma closeEach_keeps:
  "closeEach env clientId tabList w m closedTabs failedTabs = (w', m', closedTabs', failedTabs')
     \<Longrightarrow> keepsWindows w w' \<and> sessionWindowMap m' = sessionWindowMap m"
proof (induction tabList arbitrary: w m closedTabs failedTabs)
  case Nil
  then show ?case by (simp add: keepsWindows_refl)
next
  case (Cons tabIdentifier rest)
  obtain w1 m1 r1 where
    step: "closeSessionTab env m clientId (IdString tabIdentifier) w = (w1, m1, r1)"
    by (cases "closeSessionTab env m clientId (IdString tabIdentifier) w") auto
  from closeSessionTab_keeps [OF step]
  have k1: "keepsWindows w w1" and s1: "sessionWindowMap m1 = sessionWindowMap m" by simp_all
  from Cons.prems step obtain cl fl where
    "closeEach env clientId rest w1 m1 cl fl = (w', m', closedTabs', failedTabs')"
    by (cases r1) auto
  from Cons.IH [OF this] k1 s1 show ?case by (auto intro: keepsWindows_trans)
qed

lemma endSession_quiet:
  "falsy (sessionWindowMap m clientId) \<Longrightarrow> endSession env m clientId w = (w, m, Inr ())"
  by (auto simp: endSession_def falsy_def split: option.splits)

lemma closeTabs_single:
  "closeTabs env m clientId (Array [t]) w =
     (if falsy (getWindowId m clientId)
      then (w, m, \<lparr>success = False, message = ''No session found for client '' @ clientId\<rparr>)
      else case closeSessionTab env m clientId (IdString t) w of
             (w1, m1, Inr ok) \<Rightarrow> (w1, m1, \<lparr>success = True, message = ''Closed tabs: '' @ t\<rparr>)
           | (w1, m1, Inl e) \<Rightarrow>
               (w1, m1, \<lparr>success = False, message = ''Failed to close: '' @ t @ '': '' @ e\<rparr>))"
  by (auto simp: closeTabs_def Let_def split: prod.splits sum.splits)

lemma closeTabs_valid:
  "validWindowIds m \<Longrightarrow> closeTabs env m clientId tabs w = (w', m', r) \<Longrightarrow> validWindowIds m'"
proof (cases "case tabs of Bare t \<Rightarrow> toLowerCase t = ''all'' | Array ts \<Rightarrow> False")
  case True
  assume v: "validWindowIds m" and c: "closeTabs env m clientId tabs w = (w', m', r)"
  obtain w1 m1 r1 where e: "endSession env m clientId w = (w1, m1, r1)"
    by (cases "endSession env m clientId w") auto
  with c True have "m' = m \<or> m' = m1"
    by (cases r1) (auto simp: closeTabs_def split: if_splits)
  with v endSession_valid [OF v e] show ?thesis by auto
next
  case False
  assume v: "validWindowIds m" and c: "closeTabs env m clientId tabs w = (w', m', r)"
  let ?tabList = "case tabs of Array ts \<Rightarrow> ts | Bare t \<Rightarrow> [t]"
  obtain w1 m1 cl fl where e: "closeEach env clientId ?tabList w m [] [] = (w1, m1, cl, fl)"
    by (cases "closeEach env clientId ?tabList w m [] []") auto
  with c False have "m' = m \<or> m' = m1"
    by (auto simp: closeTabs_def Let_def split: if_splits)
  with v closeEach_keeps [OF e] show ?thesis by (auto simp: validWindowIds_def)
qed

text \<open>
  C10. For a client with a session, \<open>closeTabs\<close> closes the whole window when \<open>tabs\<close> is a
  bare string that \<open>toLowerCase\<close> sends to \<open>all\<close>. With any other argument, an array (so
  also the one-element array \<open>["all"]\<close>) or a bare string that is not \<open>all\<close> in some case,
  \<open>closeTabs\<close> sends no request to close a window (\<open>keepsWindows\<close>) and leaves the window
  map as it is; an array of one element is handled as that tab identifier by
  \<open>closeSessionTab\<close>.
\<close>

theorem C10_closeTabs_all:
  "(\<not> falsy (getWindowId m clientId) \<and> toLowerCase t = ''all'' \<longrightarrow>
      (\<exists>w1 m1 windowId.
         closeTabs env m clientId (Bare t) w =
           (w1, m1, \<lparr>success = True,
                     message = ''Successfully closed entire window for client '' @ clientId\<rparr>)
         \<and> trace w1 = Exec (CloseWindow windowId) # trace w
         \<and> sessionWindowMap m1 clientId = None))
   \<and> ((tabs = Array ts \<or> tabs = Bare t \<and> toLowerCase t \<noteq> ''all'')
        \<and> closeTabs env m clientId tabs w = (w', m', r) \<longrightarrow>
      keepsWindows w w' \<and> sessionWindowMap m' = sessionWindowMap m)
   \<and> (\<not> falsy (getWindowId m clientId) \<longrightarrow>
      closeTabs env m clientId (Array [t]) w =
        (case closeSessionTab env m clientId (IdString t) w of
           (w1, m1, Inr ok) \<Rightarrow> (w1, m1, \<lparr>success = True, message = ''Closed tabs: '' @ t\<rparr>)
         | (w1, m1, Inl e) \<Rightarrow>
             (w1, m1, \<lparr>success = False, message = ''Failed to close: '' @ t @ '': '' @ e\<rparr>)))"
proof -
  have whole: "\<exists>w1 m1 windowId.
         closeTabs env m clientId (Bare t) w =
           (w1, m1, \<lparr>success = True,
                     message = ''Successfully closed entire window for client '' @ clientId\<rparr>)
         \<and> trace w1 = Exec (CloseWindow windowId) # trace w
         \<and> sessionWindowMap m1 clientId = None"
    if a: "\<not> falsy (getWindowId m clientId) \<and> toLowerCase t = ''all''"
  proof -
  from a obtain windowId where wid: "sessionWindowMap m clientId = Some windowId" "windowId \<noteq> []"
    by (auto simp: falsy_def getWindowId_def split: option.splits)
  obtain d reply where "osascript env (Exec (CloseWindow windowId) # trace w) = (d, reply)"
    by (cases "osascript env (Exec (CloseWindow windowId) # trace w)") auto
  then have "endSession env m clientId w =
        (\<lparr>now = now w + d, trace = Exec (CloseWindow windowId) # trace w\<rparr>,
         m\<lparr>sessionWindowMap := (sessionWindowMap m)(clientId := None),
           sessionPathMap := (sessionPathMap m)(clientId := None),
           sessionTabMap := (sessionTabMap m)(clientId := None)\<rparr>, Inr ())"
    using wid by (cases reply) (simp_all add: endSession_def execPromise_reply)
  with a show ?thesis
    by (simp add: closeTabs_def)
  qed
  have single: "keepsWindows w w' \<and> sessionWindowMap m' = sessionWindowMap m"
    if b: "(tabs = Array ts \<or> tabs = Bare t \<and> toLowerCase t \<noteq> ''all'')
        \<and> closeTabs env m clientId tabs w = (w', m', r)"
  proof (cases "falsy (getWindowId m clientId)")
    case True
    with b show ?thesis by (auto simp: closeTabs_def keepsWindows_refl)
  next
    case False
    let ?tabList = "case tabs of Array ts \<Rightarrow> ts | Bare t \<Rightarrow> [t]"
    obtain w1 m1 cl fl where e: "closeEach env clientId ?tabList w m [] [] = (w1, m1, cl, fl)"
      by (cases "closeEach env clientId ?tabList w m [] []") auto
    with b False have "w' = w1 \<and> m' = m1"
      by (auto simp: closeTabs_def Let_def)
    with closeEach_keeps [OF e] show ?thesis by simp
  qed
  have each: "closeTabs env m clientId (Array [t]) w =
        (case closeSessionTab env m clientId (IdString t) w of
           (w1, m1, Inr ok) \<Rightarrow> (w1, m1, \<lparr>success = True, message = ''Closed tabs: '' @ t\<rparr>)
         | (w1, m1, Inl e) \<Rightarrow>
             (w1, m1, \<lparr>success = False, message = ''Failed to close: '' @ t @ '': '' @ e\<rparr>))"
    if "\<not> falsy (getWindowId m clientId)"
    by (subst closeTabs_single) (simp only: that if_False)
  from whole single each show ?thesis by blast
qed

lemmas session_defs =
  tab_defs closeTabs_def closeSessionTab_def endSession_def falsy_def getWindowId_def
  oneSession_def newManager_def strictEq_def

theorem C10_closeTabs_all_witness:
  "\<not> falsy (getWindowId oneSession ''c1'') \<and> toLowerCase ''ALL'' = ''all''
   \<and> (\<exists>w1 m1 windowId.
         closeTabs (bridgeEnv threeTabs) oneSession ''c1'' (Bare ''ALL'') start =
           (w1, m1, \<lparr>success = True,
                     message = ''Successfully closed entire window for client '' @ ''c1''\<rparr>)
         \<and> trace w1 = Exec (CloseWindow windowId) # trace start
         \<and> sessionWindowMap m1 ''c1'' = None)
   \<and> closeTabs (bridgeEnv threeTabs) oneSession ''c1'' (Array [''all'']) start =
        (\<lparr>now = 0, trace = [Exec (ListTabs ''w1'')]\<rparr>, oneSession,
         \<lparr>success = False, message = ''Failed to close: all: Tab not found: all''\<rparr>)
   \<and> keepsWindows start \<lparr>now = 0, trace = [Exec (ListTabs ''w1'')]\<rparr>
   \<and> closeSessionTab (bridgeEnv threeTabs) oneSession ''c1'' (IdString ''all'') start =
        (\<lparr>now = 0, trace = [Exec (ListTabs ''w1'')]\<rparr>, oneSession, Inl ''Tab not found: all'')"
proof -
  let ?env = "bridgeEnv threeTabs"
  let ?w' = "\<lparr>now = 0, trace = [Exec (ListTabs ''w1'')]\<rparr>"
  let ?r = "\<lparr>success = False, message = ''Failed to close: all: Tab not found: all''\<rparr>"
  have s: "\<not> falsy (getWindowId oneSession ''c1'')"
    by (simp add: session_defs)
  have l: "toLowerCase ''ALL'' = ''all''"
    by (simp add: toLowerCase_all)
  have t: "closeSessionTab ?env oneSession ''c1'' (IdString ''all'') start
             = (?w', oneSession, Inl ''Tab not found: all'')"
    by (simp add: session_defs)
  from C10_closeTabs_all [of oneSession "''c1''" "''all''" ?env start] s
  have "closeTabs ?env oneSession ''c1'' (Array [''all'']) start =
        (case closeSessionTab ?env oneSession ''c1'' (IdString ''all'') start of
           (w1, m1, Inr ok) \<Rightarrow> (w1, m1, \<lparr>success = True, message = ''Closed tabs: '' @ ''all''\<rparr>)
         | (w1, m1, Inl e) \<Rightarrow>
             (w1, m1, \<lparr>success = False, message = ''Failed to close: '' @ ''all'' @ '': '' @ e\<rparr>))"
    by blast
  then have c: "closeTabs ?env oneSession ''c1'' (Array [''all'']) start = (?w', oneSession, ?r)"
    by (simp add: t)
  from C10_closeTabs_all [of oneSession "''c1''" "''ALL''" ?env start] s l
  have whole: "\<exists>w1 m1 windowId.
         closeTabs ?env oneSession ''c1'' (Bare ''ALL'') start =
           (w1, m1, \<lparr>success = True,
                     message = ''Successfully closed entire window for client '' @ ''c1''\<rparr>)
         \<and> trace w1 = Exec (CloseWindow windowId) # trace start
         \<and> sessionWindowMap m1 ''c1'' = None"
    by blast
  from C10_closeTabs_all [of oneSession "''c1''" "''all''" ?env start "Array [''all'']" "[''all'']"
                             ?w' oneSession ?r] c
  have keeps: "keepsWindows start ?w'"
    by blast
  from s l whole c keeps t show ?thesis by blast
qed

end
